theory Spec2Isabelle
  imports Main "HOL-Library.Sublist"
begin

section \<open>Data model\<close>

text \<open>
  The request handlers of \<^verbatim>\<open>employees/views.py\<close> work on four tables: the accounts of the
  authentication framework (\<^verbatim>\<open>django.contrib.auth.models.User\<close>) and the three models the
  views import from \<^verbatim>\<open>.models\<close>. Only the columns the views read or write are kept.
  A foreign key is the primary key of the row it points to, or \<open>None\<close> for a null link.
\<close>

type_synonym date = string

record account =
  acc_id :: nat
  acc_username :: string
  acc_first_name :: string
  acc_last_name :: string
  acc_email :: string
  acc_password :: string
  is_active :: bool

record performance =
  perf_id :: nat
  review_date :: "date option"
  rating :: "int option"
  comments :: "string option"

record job_details =
  jd_id :: nat
  role :: string
  department :: string
  performance_id :: "nat option"

record personal_details =
  pd_id :: nat
  first_name :: string
  last_name :: string
  username :: string
  email :: string
  password :: string
  job_details_id :: "nat option"

datatype level = SUCCESS | ERROR

text \<open>
  The state a handler runs in: the four tables in insertion order, the flash messages of
  the session, and the authentication entry of the session (the primary key of the
  logged-in account and the hash the framework derives from its password).
\<close>

record state =
  users :: "account list"
  performances :: "performance list"
  job_details_tbl :: "job_details list"
  personal_details_tbl :: "personal_details list"
  messages :: "(level \<times> string) list"
  session_auth :: "(nat \<times> string) option"

datatype http_method = GET | POST

type_synonym querydict = "(string \<times> string) list"

text \<open>
  A request: its method, \<^verbatim>\<open>request.user\<close> (\<open>None\<close> for the anonymous user), the
  \<^verbatim>\<open>search\<close> parameter of the query string (\<open>None\<close> when absent) and the submitted form data.
\<close>

record request =
  req_method :: http_method
  user :: "account option"
  GET_search :: "string option"
  POST_data :: querydict

datatype error =
  Http404 | MultipleObjectsReturned | DoesNotExist | IntegrityError | AttributeError

datatype form =
  RegisterForm_unbound
  | RegisterForm_bound querydict
  | EditProfileForm_instance personal_details
  | EditProfileForm_bound querydict personal_details
  | EditEmployeeForm_initial job_details "date option" "int option" "string option"
  | EditEmployeeForm_bound querydict job_details

datatype template_context =
  Register_ctx form
  | Profile_ctx personal_details "job_details option" "performance option"
  | Edit_profile_ctx form nat
  | List_ctx "(personal_details \<times> job_details option) list" nat
  | Edit_employee_ctx form string string nat
  | Confirm_delete_ctx string string

text \<open>What a handler does at its end: it redirects, renders a template, or an exception
  leaves it (the framework turns \<open>Http404\<close> into a not-found response and any other
  exception into a server error).\<close>

datatype response =
  Redirect string | Redirect_to_login | Render string template_context | Raise error

record profile_cleaned =
  pc_first_name :: string
  pc_last_name :: string
  pc_username :: string
  pc_email :: string
  pc_new_password :: "string option"

record employee_cleaned =
  ec_role :: string
  ec_department :: string
  ec_review_date :: "date option"
  ec_rating :: "int option"
  ec_comments :: "string option"

text \<open>
  What the views call and \<^verbatim>\<open>src/\<close> does not hold is a parameter of the model:
  the three forms of \<^verbatim>\<open>.forms\<close> (validation gives the cleaned data, or \<open>None\<close> when
  \<^verbatim>\<open>is_valid()\<close> is false; for the registration form it gives the unsaved account that
  \<^verbatim>\<open>form.save(commit=False)\<close> builds), the password hasher and the authentication
  backend of the framework, the keyed hash the framework stores in the session for a
  password hash, the roles that \<^verbatim>\<open>manager_required\<close> of \<^verbatim>\<open>.decorators\<close> lets through and
  its response to the others, and the constants of \<^verbatim>\<open>.models\<close>: the defaults of a new Performance and Job
  Details row and \<^verbatim>\<open>JobDetails.DEPARTMENT_CHOICES\<close>.
\<close>

record platform =
  RegisterForm :: "state \<Rightarrow> querydict \<Rightarrow> account option"
  EditProfileForm :: "state \<Rightarrow> personal_details \<Rightarrow> querydict \<Rightarrow> profile_cleaned option"
  EditEmployeeForm :: "state \<Rightarrow> job_details \<Rightarrow> querydict \<Rightarrow> employee_cleaned option"
  make_password :: "string \<Rightarrow> string"
  authenticate :: "state \<Rightarrow> string \<Rightarrow> string \<Rightarrow> account option"
  salted_hmac :: "string \<Rightarrow> string"
  manager_role :: "string \<Rightarrow> bool"
  manager_denied :: response
  Performance_default :: performance
  JobDetails_default :: job_details
  DEPARTMENT_CHOICES :: "(string \<times> string) list"

section \<open>The object-relational layer\<close>

text \<open>\<^verbatim>\<open>get_object_or_404(Model, cond)\<close>: the one row that satisfies the condition;
  no row raises \<open>Http404\<close>, several rows raise \<open>MultipleObjectsReturned\<close>.\<close>

definition get_object_or_404 :: "('a \<Rightarrow> bool) \<Rightarrow> 'a list \<Rightarrow> error + 'a" where
  "get_object_or_404 p rows =
     (case filter p rows of
        [] \<Rightarrow> Inl Http404
      | [x] \<Rightarrow> Inr x
      | _ # _ # _ \<Rightarrow> Inl MultipleObjectsReturned)"

text \<open>A new primary key: one more than the largest key of the table.\<close>

definition fresh_id :: "nat list \<Rightarrow> nat" where
  "fresh_id ks = Suc (foldr max ks 0)"

text \<open>Following a foreign key: a null link gives \<open>None\<close>, a link to a missing row raises
  \<open>DoesNotExist\<close>.\<close>

definition related_job_details :: "state \<Rightarrow> personal_details \<Rightarrow> error + job_details option" where
  "related_job_details st pd =
     (case job_details_id pd of
        None \<Rightarrow> Inr None
      | Some k \<Rightarrow>
          (case find (\<lambda>j. jd_id j = k) (job_details_tbl st) of
             None \<Rightarrow> Inl DoesNotExist
           | Some j \<Rightarrow> Inr (Some j)))"

definition related_performance :: "state \<Rightarrow> job_details \<Rightarrow> error + performance option" where
  "related_performance st jd =
     (case performance_id jd of
        None \<Rightarrow> Inr None
      | Some k \<Rightarrow>
          (case find (\<lambda>p. perf_id p = k) (performances st) of
             None \<Rightarrow> Inl DoesNotExist
           | Some p \<Rightarrow> Inr (Some p)))"

text \<open>\<^verbatim>\<open>instance.save()\<close> of a row that has a primary key: the row with that key is
  replaced, and the row is inserted when the table has none.\<close>

definition save_row :: "('a \<Rightarrow> nat) \<Rightarrow> 'a \<Rightarrow> 'a list \<Rightarrow> 'a list" where
  "save_row key x rows =
     (if key x \<in> set (map key rows)
      then map (\<lambda>r. if key r = key x then x else r) rows
      else rows @ [x])"

text \<open>Saving an account: the username column of the framework's account table is unique,
  so a username that another row holds raises \<open>IntegrityError\<close>.\<close>

definition save_user :: "state \<Rightarrow> account \<Rightarrow> error + state" where
  "save_user st u =
     (if \<exists>v \<in> set (users st). acc_id v \<noteq> acc_id u \<and> acc_username v = acc_username u
      then Inl IntegrityError
      else Inr (st\<lparr>users := save_row acc_id u (users st)\<rparr>))"

definition delete_user :: "state \<Rightarrow> account \<Rightarrow> state" where
  "delete_user st u = st\<lparr>users := filter (\<lambda>v. acc_id v \<noteq> acc_id u) (users st)\<rparr>"

text \<open>\<^verbatim>\<open>messages.success\<close> and \<^verbatim>\<open>messages.error\<close> append to the flash messages.\<close>

definition add_message :: "level \<Rightarrow> string \<Rightarrow> state \<Rightarrow> state" where
  "add_message l m st = st\<lparr>messages := messages st @ [(l, m)]\<rparr>"

section \<open>Helpers of the application that the views import\<close>

text \<open>
  Modelled from the spec: \<^verbatim>\<open>utils.clear_messages\<close> is not in \<^verbatim>\<open>src/\<close>. The spec: flash
  messages are "explicitly cleared at the start of update/delete/edit-employee handlers
  before new messages are added".
\<close>

definition clear_messages :: "state \<Rightarrow> state" where
  "clear_messages st = st\<lparr>messages := []\<rparr>"

text \<open>
  Modelled from the spec: \<^verbatim>\<open>utils.get_personal_details_by_username\<close>,
  \<^verbatim>\<open>utils.get_job_details_by_username\<close> and \<^verbatim>\<open>utils.get_performance_by_username\<close> are not
  in \<^verbatim>\<open>src/\<close>. The spec: "convenience accessors mapping a username to its
  Job/Personal/Performance records", and a lookup by username that finds no row is
  "surfaced as a standard not found response". A null link gives \<open>None\<close>.
\<close>

definition get_personal_details_by_username :: "state \<Rightarrow> string \<Rightarrow> error + personal_details" where
  "get_personal_details_by_username st name =
     get_object_or_404 (\<lambda>pd. username pd = name) (personal_details_tbl st)"

definition get_job_details_by_username :: "state \<Rightarrow> string \<Rightarrow> error + job_details option" where
  "get_job_details_by_username st name =
     (case get_personal_details_by_username st name of
        Inl e \<Rightarrow> Inl e
      | Inr pd \<Rightarrow> related_job_details st pd)"


text \<open>
  The guards in front of the handlers. \<^verbatim>\<open>login_required\<close> of the framework sends the
  anonymous user to the login page. Modelled from the spec: \<^verbatim>\<open>decorators.manager_required\<close>
  is not in \<^verbatim>\<open>src/\<close>. The spec: a "missing manager role short-circuits before the handler
  body runs (redirect/denial)"; which roles count as manager and what the denial is are
  the parameters \<open>manager_role\<close> and \<open>manager_denied\<close>.
\<close>

definition login_required ::
  "(account \<Rightarrow> state \<times> response) \<Rightarrow> state \<Rightarrow> request \<Rightarrow> state \<times> response" where
  "login_required view st req =
     (case user req of
        None \<Rightarrow> (st, Redirect_to_login)
      | Some u \<Rightarrow> view u)"

definition manager_required ::
  "platform \<Rightarrow> state \<Rightarrow> account \<Rightarrow> (state \<times> response) \<Rightarrow> state \<times> response" where
  "manager_required P st u view =
     (case get_job_details_by_username st (acc_username u) of
        Inl e \<Rightarrow> (st, Raise e)
      | Inr None \<Rightarrow> (st, Raise AttributeError)
      | Inr (Some jd) \<Rightarrow> if manager_role P (role jd) then view else (st, manager_denied P))"

section \<open>Edit employee and delete employee\<close>

text \<open>
  Modelled from the spec: \<^verbatim>\<open>EditEmployeeForm.save\<close> of \<^verbatim>\<open>.forms\<close> is not in \<^verbatim>\<open>src/\<close>. The
  spec: "persist Job Details changes via the form". The cleaned role and department are
  written to the Job Details row the form was built on; its key and its link stay.
\<close>

definition EditEmployeeForm_save :: "employee_cleaned \<Rightarrow> job_details \<Rightarrow> state \<Rightarrow> state" where
  "EditEmployeeForm_save cd jd st =
     st\<lparr>job_details_tbl :=
          save_row jd_id (jd\<lparr>role := ec_role cd, department := ec_department cd\<rparr>)
            (job_details_tbl st)\<rparr>"

text \<open>Lines 200 to 204 of \<^verbatim>\<open>update_employee\<close>: the three fields are copied to the
  Performance record read before the form was saved, and the record is saved, when
  the Job Details row has one.\<close>

definition update_performance :: "employee_cleaned \<Rightarrow> performance option \<Rightarrow> state \<Rightarrow> state" where
  "update_performance cd perf st =
     (case perf of
        None \<Rightarrow> st
      | Some p \<Rightarrow>
          st\<lparr>performances :=
               save_row perf_id
                 (p\<lparr>review_date := ec_review_date cd, rating := ec_rating cd,
                    comments := ec_comments cd\<rparr>)
                 (performances st)\<rparr>)"

text \<open>Lines 191 to 231 of \<^verbatim>\<open>update_employee\<close>: what the handler does once the check on
  the administrator role has let the request through.\<close>

definition update_employee_proceed ::
  "platform \<Rightarrow> state \<Rightarrow> request \<Rightarrow> personal_details \<Rightarrow> job_details \<Rightarrow> performance option \<Rightarrow>
   nat \<Rightarrow> state \<times> response" where
  "update_employee_proceed P st req pd jd perf emp_id =
     (if req_method req = POST
      then (case EditEmployeeForm P st jd (POST_data req) of
              Some cd \<Rightarrow>
                (add_message SUCCESS ''Profile updated successfully!''
                   (update_performance cd perf (EditEmployeeForm_save cd jd st)),
                 Redirect ''list'')
            | None \<Rightarrow>
                (add_message ERROR ''There was an error with your submission.'' st,
                 Render ''main/edit-employee.html''
                   (Edit_employee_ctx (EditEmployeeForm_bound (POST_data req) jd)
                      (first_name pd) (last_name pd) emp_id)))
      else (st,
            Render ''main/edit-employee.html''
              (Edit_employee_ctx
                 (EditEmployeeForm_initial jd
                    (case perf of None \<Rightarrow> None | Some p \<Rightarrow> review_date p)
                    (case perf of None \<Rightarrow> None | Some p \<Rightarrow> rating p)
                    (case perf of None \<Rightarrow> None | Some p \<Rightarrow> comments p))
                 (first_name pd) (last_name pd) emp_id)))"

text \<open>The body of \<^verbatim>\<open>update_employee\<close>. The condition of line 187 reads the caller's role
  only when the target's role is \<^verbatim>\<open>ADM\<close> (\<^verbatim>\<open>and\<close> evaluates its right side on demand), and
  reading the role of no record raises.\<close>

definition update_employee_view ::
  "platform \<Rightarrow> state \<Rightarrow> request \<Rightarrow> account \<Rightarrow> nat \<Rightarrow> state \<times> response" where
  "update_employee_view P st0 req current_user emp_id =
     (let st = clear_messages st0 in
      case get_job_details_by_username st (acc_username current_user) of
        Inl e \<Rightarrow> (st, Raise e)
      | Inr self_job_details \<Rightarrow>
      (case get_object_or_404 (\<lambda>pd. job_details_id pd = Some emp_id) (personal_details_tbl st) of
        Inl e \<Rightarrow> (st, Raise e)
      | Inr pd \<Rightarrow>
      (case get_object_or_404 (\<lambda>j. jd_id j = emp_id) (job_details_tbl st) of
        Inl e \<Rightarrow> (st, Raise e)
      | Inr jd \<Rightarrow>
      (case related_performance st jd of
        Inl e \<Rightarrow> (st, Raise e)
      | Inr perf \<Rightarrow>
          if role jd = ''ADM''
          then (case self_job_details of
                  None \<Rightarrow> (st, Raise AttributeError)
                | Some self_jd \<Rightarrow>
                    if role self_jd \<noteq> ''ADM''
                    then (add_message ERROR ''You cannot update an Admin employee.'' st,
                          Redirect ''list'')
                    else update_employee_proceed P st req pd jd perf emp_id)
          else update_employee_proceed P st req pd jd perf emp_id))))"

definition update_employee :: "platform \<Rightarrow> state \<Rightarrow> request \<Rightarrow> nat \<Rightarrow> state \<times> response" where
  "update_employee P st req emp_id =
     login_required
       (\<lambda>u. manager_required P st u (update_employee_view P st req u emp_id)) st req"

text \<open>
  Modelled from the spec: the deletion behaviour that \<^verbatim>\<open>.models\<close> declares for Personal
  Details is not in \<^verbatim>\<open>src/\<close>. The spec: "Deleting Personal Details must delete its Job
  Details and that Job Details' Performance (cascade)". The row goes, with the Job Details
  row it links to and the Performance row that one links to.
\<close>

definition PersonalDetails_delete :: "state \<Rightarrow> personal_details \<Rightarrow> state" where
  "PersonalDetails_delete st pd =
     (let jds = filter (\<lambda>j. Some (jd_id j) = job_details_id pd) (job_details_tbl st)
      in st\<lparr>personal_details_tbl := filter (\<lambda>p. pd_id p \<noteq> pd_id pd) (personal_details_tbl st),
            job_details_tbl :=
              filter (\<lambda>j. Some (jd_id j) \<noteq> job_details_id pd) (job_details_tbl st),
            performances :=
              filter (\<lambda>p. Some (perf_id p) \<notin> set (map performance_id jds)) (performances st)\<rparr>)"

text \<open>\<^verbatim>\<open>dict(JobDetails.DEPARTMENT_CHOICES).get(d, d)\<close>: the label of a department code,
  the code itself when it has none; in a dictionary built from pairs the last pair of
  a key stands.\<close>

definition department_label :: "platform \<Rightarrow> string \<Rightarrow> string" where
  "department_label P d =
     (case map_of (rev (DEPARTMENT_CHOICES P)) d of None \<Rightarrow> d | Some l \<Rightarrow> l)"

text \<open>Lines 250 to 270 of \<^verbatim>\<open>delete_employee\<close>.\<close>

definition delete_employee_proceed ::
  "platform \<Rightarrow> state \<Rightarrow> request \<Rightarrow> personal_details \<Rightarrow> job_details \<Rightarrow> state \<times> response" where
  "delete_employee_proceed P st req pd jd =
     (if req_method req = POST
      then (case get_object_or_404 (\<lambda>u. acc_username u = username pd) (users st) of
              Inl e \<Rightarrow> (st, Raise e)
            | Inr u \<Rightarrow>
                (add_message SUCCESS ''Employee deleted successfully.''
                   (PersonalDetails_delete (delete_user st u) pd),
                 Redirect ''main:list''))
      else (st,
            Render ''main/confirm-delete.html''
              (Confirm_delete_ctx (first_name pd @ '' '' @ last_name pd)
                 (department_label P (department jd)))))"

definition delete_employee_view ::
  "platform \<Rightarrow> state \<Rightarrow> request \<Rightarrow> account \<Rightarrow> nat \<Rightarrow> state \<times> response" where
  "delete_employee_view P st0 req current_user emp_id =
     (let st = clear_messages st0 in
      case get_job_details_by_username st (acc_username current_user) of
        Inl e \<Rightarrow> (st, Raise e)
      | Inr self_job_details \<Rightarrow>
      (case get_object_or_404 (\<lambda>pd. job_details_id pd = Some emp_id) (personal_details_tbl st) of
        Inl e \<Rightarrow> (st, Raise e)
      | Inr pd \<Rightarrow>
      (case get_object_or_404 (\<lambda>j. jd_id j = emp_id) (job_details_tbl st) of
        Inl e \<Rightarrow> (st, Raise e)
      | Inr jd \<Rightarrow>
          if role jd = ''ADM''
          then (case self_job_details of
                  None \<Rightarrow> (st, Raise AttributeError)
                | Some self_jd \<Rightarrow>
                    if role self_jd \<noteq> ''ADM''
                    then (add_message ERROR ''You cannot delete an Admin employee.'' st,
                          Redirect ''main:list'')
                    else delete_employee_proceed P st req pd jd)
          else delete_employee_proceed P st req pd jd)))"

definition delete_employee :: "platform \<Rightarrow> state \<Rightarrow> request \<Rightarrow> nat \<Rightarrow> state \<times> response" where
  "delete_employee P st req emp_id =
     login_required
       (\<lambda>u. manager_required P st u (delete_employee_view P st req u emp_id)) st req"

section \<open>Registration\<close>

text \<open>\<^verbatim>\<open>Model.objects.create(...)\<close> inserts a row under a new primary key.\<close>

definition create_performance :: "platform \<Rightarrow> state \<Rightarrow> performance \<times> state" where
  "create_performance P st =
     (let p = (Performance_default P)\<lparr>perf_id := fresh_id (map perf_id (performances st))\<rparr>
      in (p, st\<lparr>performances := performances st @ [p]\<rparr>))"

definition create_job_details :: "platform \<Rightarrow> performance \<Rightarrow> state \<Rightarrow> job_details \<times> state" where
  "create_job_details P perf st =
     (let j = (JobDetails_default P)
                \<lparr>jd_id := fresh_id (map jd_id (job_details_tbl st)),
                 performance_id := Some (perf_id perf)\<rparr>
      in (j, st\<lparr>job_details_tbl := job_details_tbl st @ [j]\<rparr>))"

definition create_personal_details :: "account \<Rightarrow> job_details \<Rightarrow> state \<Rightarrow> personal_details \<times> state" where
  "create_personal_details u jd st =
     (let pd = \<lparr>pd_id = fresh_id (map pd_id (personal_details_tbl st)),
                first_name = acc_first_name u, last_name = acc_last_name u,
                username = acc_username u, email = acc_email u, password = acc_password u,
                job_details_id = Some (jd_id jd)\<rparr>
      in (pd, st\<lparr>personal_details_tbl := personal_details_tbl st @ [pd]\<rparr>))"

definition user_register :: "platform \<Rightarrow> state \<Rightarrow> request \<Rightarrow> state \<times> response" where
  "user_register P st req =
     (if req_method req = POST
      then (case RegisterForm P st (POST_data req) of
              Some unsaved \<Rightarrow>
                (let u = unsaved\<lparr>acc_id := fresh_id (map acc_id (users st))\<rparr> in
                 case save_user st u of
                   Inl e \<Rightarrow> (st, Raise e)
                 | Inr st1 \<Rightarrow>
                     (let (performance_model, st2) = create_performance P st1;
                          (job_details_model, st3) = create_job_details P performance_model st2;
                          (pd, st4) = create_personal_details u job_details_model st3
                      in (add_message SUCCESS ''Registration successful!'' st4, Redirect ''/'')))
            | None \<Rightarrow>
                (add_message ERROR ''There was an error with your submission.'' st,
                 Render ''register/register.html''
                   (Register_ctx (RegisterForm_bound (POST_data req)))))
      else (st, Render ''register/register.html'' (Register_ctx RegisterForm_unbound)))"

section \<open>Profile\<close>



text \<open>
  Modelled from the spec: \<^verbatim>\<open>EditProfileForm.save\<close> of \<^verbatim>\<open>.forms\<close> is not in \<^verbatim>\<open>src/\<close>. The
  spec: "persist Personal Details fields, then propagate username/email changes to
  Account". The cleaned names, username and email are written to the Personal Details row
  the form was built on.
\<close>

definition EditProfileForm_save :: "profile_cleaned \<Rightarrow> personal_details \<Rightarrow> state \<Rightarrow> state" where
  "EditProfileForm_save cd pd st =
     st\<lparr>personal_details_tbl :=
          save_row pd_id
            (pd\<lparr>first_name := pc_first_name cd, last_name := pc_last_name cd,
                username := pc_username cd, email := pc_email cd\<rparr>)
            (personal_details_tbl st)\<rparr>"

text \<open>\<^verbatim>\<open>login(request, user)\<close> of the framework stores the account's key and the keyed hash
  of its password in the session; on a later request the framework takes the session's
  user to be the active account with that key whose password still has that hash.\<close>

definition login :: "platform \<Rightarrow> state \<Rightarrow> account \<Rightarrow> state" where
  "login P st u = st\<lparr>session_auth := Some (acc_id u, salted_hmac P (acc_password u))\<rparr>"

definition get_user :: "platform \<Rightarrow> state \<Rightarrow> account option" where
  "get_user P st =
     (case session_auth st of
        None \<Rightarrow> None
      | Some (k, h) \<Rightarrow>
          (case find (\<lambda>u. acc_id u = k) (users st) of
             None \<Rightarrow> None
           | Some u \<Rightarrow>
               if is_active u \<and> salted_hmac P (acc_password u) = h then Some u else None))"

text \<open>The default authentication backend of the framework: the account of that username,
  when the password checks against its hash and the account is active.\<close>

definition ModelBackend_authenticate ::
  "(string \<Rightarrow> string \<Rightarrow> bool) \<Rightarrow> state \<Rightarrow> string \<Rightarrow> string \<Rightarrow> account option" where
  "ModelBackend_authenticate check_password st name pw =
     (case find (\<lambda>u. acc_username u = name) (users st) of
        None \<Rightarrow> None
      | Some u \<Rightarrow> if check_password pw (acc_password u) \<and> is_active u then Some u else None)"

text \<open>\<^verbatim>\<open>if new_password:\<close> holds for a string that is there and not empty.\<close>

definition truthy :: "string option \<Rightarrow> bool" where
  "truthy v = (case v of None \<Rightarrow> False | Some s \<Rightarrow> s \<noteq> [])"

text \<open>Lines 107 to 134 of \<^verbatim>\<open>update_profile\<close>: the valid submission.\<close>

definition update_profile_valid ::
  "platform \<Rightarrow> state \<Rightarrow> request \<Rightarrow> account \<Rightarrow> personal_details \<Rightarrow> profile_cleaned \<Rightarrow> nat \<Rightarrow>
   state \<times> response" where
  "update_profile_valid P st req usr pd cd ident =
     (let st1 = EditProfileForm_save cd pd st;
          new_username = pc_username cd;
          new_email = pc_email cd;
          new_password = pc_new_password cd;
          usr1 = usr\<lparr>acc_username := new_username, acc_email := new_email\<rparr>;
          done = (\<lambda>s. (add_message SUCCESS ''Update was successful.'' s,
                       Render ''main/edit-profile.html''
                         (Edit_profile_ctx (EditProfileForm_bound (POST_data req) pd) ident)))
      in case (if truthy new_password then new_password else None) of
           Some pw \<Rightarrow>
             (let usr2 = usr1\<lparr>acc_password := make_password P pw\<rparr> in
              case save_user st1 usr2 of
                Inl e \<Rightarrow> (st1, Raise e)
              | Inr st2 \<Rightarrow>
                  (case authenticate P st2 new_username pw of
                     Some updated_user \<Rightarrow> done (login P st2 updated_user)
                   | None \<Rightarrow> done st2))
         | None \<Rightarrow>
             (case save_user st1 usr1 of
                Inl e \<Rightarrow> (st1, Raise e)
              | Inr st2 \<Rightarrow> done st2))"

definition update_profile_view ::
  "platform \<Rightarrow> state \<Rightarrow> request \<Rightarrow> account \<Rightarrow> nat \<Rightarrow> state \<times> response" where
  "update_profile_view P st0 req usr ident =
     (let st = clear_messages st0 in
      case get_object_or_404 (\<lambda>pd. username pd = acc_username usr) (personal_details_tbl st) of
        Inl e \<Rightarrow> (st, Raise e)
      | Inr pd \<Rightarrow>
          if req_method req = POST
          then (case EditProfileForm P st pd (POST_data req) of
                  Some cd \<Rightarrow> update_profile_valid P st req usr pd cd ident
                | None \<Rightarrow>
                    (add_message ERROR ''There was an error with your submission.'' st,
                     Render ''main/edit-profile.html''
                       (Edit_profile_ctx (EditProfileForm_bound (POST_data req) pd) ident)))
          else (st,
                Render ''main/edit-profile.html''
                  (Edit_profile_ctx (EditProfileForm_instance pd) ident)))"

definition update_profile :: "platform \<Rightarrow> state \<Rightarrow> request \<Rightarrow> nat \<Rightarrow> state \<times> response" where
  "update_profile P st req ident =
     login_required (\<lambda>u. update_profile_view P st req u ident) st req"


section \<open>Employee list\<close>

text \<open>\<^verbatim>\<open>PersonalDetails.objects.select_related('job_details')\<close>: every Personal Details row,
  joined to the Job Details row it links to.\<close>

definition select_related :: "state \<Rightarrow> (personal_details \<times> job_details option) list" where
  "select_related st =
     map (\<lambda>pd. (pd, case job_details_id pd of
                       None \<Rightarrow> None
                     | Some k \<Rightarrow> find (\<lambda>j. jd_id j = k) (job_details_tbl st)))
       (personal_details_tbl st)"

text \<open>\<^verbatim>\<open>.exclude(job_details__role='ADM')\<close> drops the rows whose Job Details has that role;
  a row with no Job Details stays.\<close>

definition exclude_role ::
  "string \<Rightarrow> (personal_details \<times> job_details option) list \<Rightarrow>
   (personal_details \<times> job_details option) list" where
  "exclude_role r rows =
     filter (\<lambda>(pd, j). case j of None \<Rightarrow> True | Some jd \<Rightarrow> role jd \<noteq> r) rows"

text \<open>\<^verbatim>\<open>icontains\<close>: the query occurs in the value as a contiguous run of characters,
  upper and lower case of the letters A to Z taken as equal.\<close>

definition lower_char :: "char \<Rightarrow> char" where
  "lower_char c =
     (case map_of (zip ''ABCDEFGHIJKLMNOPQRSTUVWXYZ'' ''abcdefghijklmnopqrstuvwxyz'') c of
        None \<Rightarrow> c
      | Some l \<Rightarrow> l)"

definition icontains :: "string \<Rightarrow> string \<Rightarrow> bool" where
  "icontains s q = sublist (map lower_char q) (map lower_char s)"

definition search_match :: "string \<Rightarrow> personal_details \<times> job_details option \<Rightarrow> bool" where
  "search_match q row =
     (case row of (pd, j) \<Rightarrow>
        icontains (first_name pd) q \<or> icontains (last_name pd) q
        \<or> (case j of None \<Rightarrow> False | Some jd \<Rightarrow> icontains (department jd) q))"

text \<open>
  What the search is said to do, stated without the code's folding of letters, to be
  compared with \<open>icontains\<close>: two characters are the same letter when they are equal or
  one is a capital A to Z (character codes 65 to 90) and the other the small letter of
  the same name (its code plus 32); a query occurs in a value, letter case put aside,
  when the value has a contiguous part of the query's length that agrees with the query
  letter by letter.
\<close>

definition same_letter :: "char \<Rightarrow> char \<Rightarrow> bool" where
  "same_letter c d \<longleftrightarrow>
     c = d
     \<or> (65 \<le> (of_char c :: nat) \<and> (of_char c :: nat) \<le> 90 \<and> (of_char d :: nat) = of_char c + 32)
     \<or> (65 \<le> (of_char d :: nat) \<and> (of_char d :: nat) \<le> 90 \<and> (of_char c :: nat) = of_char d + 32)"

definition occurs_ignoring_case :: "string \<Rightarrow> string \<Rightarrow> bool" where
  "occurs_ignoring_case q s \<longleftrightarrow> (\<exists>ps m ss. s = ps @ m @ ss \<and> list_all2 same_letter m q)"

definition employees_list_view :: "state \<Rightarrow> request \<Rightarrow> account \<Rightarrow> state \<times> response" where
  "employees_list_view st req current_user =
     (case get_job_details_by_username st (acc_username current_user) of
        Inl e \<Rightarrow> (st, Raise e)
      | Inr None \<Rightarrow> (st, Raise AttributeError)
      | Inr (Some jd) \<Rightarrow>
          (let self_id = jd_id jd;
               search_query = (case GET_search req of None \<Rightarrow> [] | Some q \<Rightarrow> q);
               employees = select_related st;
               employees = (if role jd \<noteq> ''ADM'' then exclude_role ''ADM'' employees
                            else employees);
               employees = (if search_query \<noteq> [] then filter (search_match search_query) employees
                            else employees)
           in (st, Render ''main/list.html'' (List_ctx employees self_id))))"

definition employees_list :: "platform \<Rightarrow> state \<Rightarrow> request \<Rightarrow> state \<times> response" where
  "employees_list P st req =
     login_required (\<lambda>u. manager_required P st u (employees_list_view st req u)) st req"

section \<open>A sample deployment\<close>

text \<open>A small instance of the parameters and of the tables, on which the theorems below
  are exercised: an administrator, a manager and an employee, each with Personal
  Details, Job Details and a Performance record.\<close>

definition field :: "querydict \<Rightarrow> string \<Rightarrow> string" where
  "field post k = (case map_of post k of None \<Rightarrow> [] | Some v \<Rightarrow> v)"

definition sample_platform :: platform where
  "sample_platform =
     \<lparr>RegisterForm = (\<lambda>st post.
        if field post ''username'' = [] \<or> field post ''password1'' \<noteq> field post ''password2''
        then None
        else Some \<lparr>acc_id = 0, acc_username = field post ''username'',
                   acc_first_name = field post ''first_name'',
                   acc_last_name = field post ''last_name'',
                   acc_email = field post ''email'',
                   acc_password = ''hash$'' @ field post ''password1'',
                   is_active = True\<rparr>),
      EditProfileForm = (\<lambda>st pd post.
        if field post ''username'' = [] then None
        else Some \<lparr>pc_first_name = field post ''first_name'',
                   pc_last_name = field post ''last_name'',
                   pc_username = field post ''username'',
                   pc_email = field post ''email'',
                   pc_new_password = map_of post ''new_password''\<rparr>),
      EditEmployeeForm = (\<lambda>st jd post.
        if field post ''role'' = [] then None
        else Some \<lparr>ec_role = field post ''role'',
                   ec_department = field post ''department'',
                   ec_review_date = map_of post ''review_date'',
                   ec_rating = (if field post ''rating'' = ''5'' then Some 5 else None),
                   ec_comments = map_of post ''comments''\<rparr>),
      make_password = (\<lambda>pw. ''hash$'' @ pw),
      authenticate = ModelBackend_authenticate (\<lambda>pw h. h = ''hash$'' @ pw),
      salted_hmac = (\<lambda>h. ''hmac$'' @ h),
      manager_role = (\<lambda>r. r = ''ADM'' \<or> r = ''MGR''),
      manager_denied = Redirect ''home'',
      Performance_default = \<lparr>perf_id = 0, review_date = None, rating = None, comments = None\<rparr>,
      JobDetails_default = \<lparr>jd_id = 0, role = [], department = [], performance_id = None\<rparr>,
      DEPARTMENT_CHOICES = [(''HR'', ''Human Resources''), (''IT'', ''Information Technology'')]\<rparr>"

definition ann :: account where
  "ann = \<lparr>acc_id = 1, acc_username = ''ann'', acc_first_name = ''Ann'', acc_last_name = ''Lee'',
          acc_email = ''ann@x.org'', acc_password = ''hash$a1'', is_active = True\<rparr>"

definition bob :: account where
  "bob = \<lparr>acc_id = 2, acc_username = ''bob'', acc_first_name = ''Bob'', acc_last_name = ''Ray'',
          acc_email = ''bob@x.org'', acc_password = ''hash$b2'', is_active = True\<rparr>"

definition cyd :: account where
  "cyd = \<lparr>acc_id = 3, acc_username = ''cyd'', acc_first_name = ''Cyd'', acc_last_name = ''Fox'',
          acc_email = ''cyd@x.org'', acc_password = ''hash$c3'', is_active = True\<rparr>"

definition ann_job :: job_details where
  "ann_job = \<lparr>jd_id = 1, role = ''ADM'', department = ''IT'', performance_id = Some 1\<rparr>"

definition bob_job :: job_details where
  "bob_job = \<lparr>jd_id = 2, role = ''MGR'', department = ''HR'', performance_id = Some 2\<rparr>"

definition cyd_job :: job_details where
  "cyd_job = \<lparr>jd_id = 3, role = ''EMP'', department = ''Sales'', performance_id = Some 3\<rparr>"

definition personal_of :: "account \<Rightarrow> personal_details" where
  "personal_of u =
     \<lparr>pd_id = acc_id u, first_name = acc_first_name u, last_name = acc_last_name u,
      username = acc_username u, email = acc_email u, password = acc_password u,
      job_details_id = Some (acc_id u)\<rparr>"

definition blank_performance :: "nat \<Rightarrow> performance" where
  "blank_performance k = \<lparr>perf_id = k, review_date = None, rating = None, comments = None\<rparr>"

definition sample_state :: state where
  "sample_state =
     \<lparr>users = [ann, bob, cyd],
      performances = [blank_performance 1, blank_performance 2, blank_performance 3],
      job_details_tbl = [ann_job, bob_job, cyd_job],
      personal_details_tbl = [personal_of ann, personal_of bob, personal_of cyd],
      messages = [(SUCCESS, ''Welcome back.'')],
      session_auth = None\<rparr>"

definition request_of :: "http_method \<Rightarrow> account \<Rightarrow> querydict \<Rightarrow> request" where
  "request_of m u post = \<lparr>req_method = m, user = Some u, GET_search = None, POST_data = post\<rparr>"

text \<open>Cyd's profile form: a new username, a new email and a new password; and the same
  form with the password field left out.\<close>

definition cyd_post :: querydict where
  "cyd_post = [(''username'', ''cy''), (''first_name'', ''Cyd''), (''last_name'', ''Fox''),
     (''email'', ''cy@x.org''), (''new_password'', ''n3w'')]"

definition cyd_post_plain :: querydict where
  "cyd_post_plain = [(''username'', ''cy''), (''first_name'', ''Cyd''), (''last_name'', ''Fox''),
     (''email'', ''cy@x.org'')]"

definition cyd_cleaned :: "string option \<Rightarrow> profile_cleaned" where
  "cyd_cleaned pw =
     \<lparr>pc_first_name = ''Cyd'', pc_last_name = ''Fox'', pc_username = ''cy'',
      pc_email = ''cy@x.org'', pc_new_password = pw\<rparr>"

section \<open>Properties\<close>

subsection \<open>Clearing the flash messages leaves the tables alone\<close>

lemma related_clear [simp]:
  "related_job_details (clear_messages st) pd = related_job_details st pd"
  "related_performance (clear_messages st) jd = related_performance st jd"
  by (simp_all add: related_job_details_def related_performance_def clear_messages_def
      cong: option.case_cong)

lemma tables_clear [simp]:
  "personal_details_tbl (clear_messages st) = personal_details_tbl st"
  "job_details_tbl (clear_messages st) = job_details_tbl st"
  "performances (clear_messages st) = performances st"
  "users (clear_messages st) = users st"
  "session_auth (clear_messages st) = session_auth st"
  by (simp_all add: clear_messages_def)

lemma lookups_clear [simp]:
  "get_personal_details_by_username (clear_messages st) n = get_personal_details_by_username st n"
  "get_job_details_by_username (clear_messages st) n = get_job_details_by_username st n"
  by (simp_all add: get_job_details_by_username_def get_personal_details_by_username_def
      cong: sum.case_cong)

lemma add_message_clear:
  "add_message l m (clear_messages st) = st\<lparr>messages := [(l, m)]\<rparr>"
  by (simp add: add_message_def clear_messages_def)

text \<open>
  Claim C1. A manager whose own role is not \<^verbatim>\<open>ADM\<close> calls the delete or the edit handler on
  an employee whose role is \<^verbatim>\<open>ADM\<close>, with any method and any form data: every table and
  the session stay as they were, the flash messages are the one error message, and the
  response is the redirect to the list. (The edit handler reads the linked Performance
  before the check, so the link must not dangle there.)
\<close>

theorem adm_target_protected:
  assumes "user req = Some u"
    and "get_job_details_by_username st (acc_username u) = Inr (Some self_jd)"
    and "manager_role P (role self_jd)"
    and "role self_jd \<noteq> ''ADM''"
    and "get_object_or_404 (\<lambda>pd. job_details_id pd = Some emp_id) (personal_details_tbl st) = Inr pd"
    and "get_object_or_404 (\<lambda>j. jd_id j = emp_id) (job_details_tbl st) = Inr jd"
    and "role jd = ''ADM''"
  shows "delete_employee P st req emp_id =
           (st\<lparr>messages := [(ERROR, ''You cannot delete an Admin employee.'')]\<rparr>,
            Redirect ''main:list'')
         \<and> (related_performance st jd \<noteq> Inl DoesNotExist \<longrightarrow>
            update_employee P st req emp_id =
              (st\<lparr>messages := [(ERROR, ''You cannot update an Admin employee.'')]\<rparr>,
               Redirect ''list''))"
proof -
  have d: "delete_employee P st req emp_id =
           (st\<lparr>messages := [(ERROR, ''You cannot delete an Admin employee.'')]\<rparr>,
            Redirect ''main:list'')"
    using assms
    by (simp add: delete_employee_def login_required_def manager_required_def
        delete_employee_view_def add_message_clear Let_def)
  have u: "update_employee P st req emp_id =
              (st\<lparr>messages := [(ERROR, ''You cannot update an Admin employee.'')]\<rparr>,
               Redirect ''list'')" if "related_performance st jd \<noteq> Inl DoesNotExist"
  proof -
    from that obtain perf where "related_performance st jd = Inr perf"
      by (auto simp: related_performance_def split: option.splits)
    with assms show ?thesis
    by (simp add: update_employee_def login_required_def manager_required_def
        update_employee_view_def add_message_clear Let_def)
  qed
  from d u show ?thesis by blast
qed


subsection \<open>The sample deployment\<close>

lemmas sample_defs = sample_state_def sample_platform_def ann_def bob_def cyd_def ann_job_def
  bob_job_def cyd_job_def personal_of_def blank_performance_def request_of_def field_def

text \<open>On the sample deployment: the manager Bob against the administrator Ann.\<close>

theorem adm_target_protected_witness:
  "get_job_details_by_username sample_state (acc_username bob) = Inr (Some bob_job)
   \<and> role bob_job \<noteq> ''ADM'' \<and> role ann_job = ''ADM''
   \<and> delete_employee sample_platform sample_state (request_of POST bob []) 1 =
       (sample_state\<lparr>messages := [(ERROR, ''You cannot delete an Admin employee.'')]\<rparr>,
        Redirect ''main:list'')
   \<and> update_employee sample_platform sample_state (request_of POST bob []) 1 =
       (sample_state\<lparr>messages := [(ERROR, ''You cannot update an Admin employee.'')]\<rparr>,
        Redirect ''list'')"
proof -
  have h1: "user (request_of POST bob []) = Some bob"
    by (simp add: request_of_def)
  have h2: "get_job_details_by_username sample_state (acc_username bob) = Inr (Some bob_job)"
    by (simp add: get_job_details_by_username_def get_personal_details_by_username_def
        get_object_or_404_def related_job_details_def sample_defs)
  have h3: "manager_role sample_platform (role bob_job)"
    by (simp add: sample_defs)
  have h4: "role bob_job \<noteq> ''ADM''"
    by (simp add: sample_defs)
  have h5: "get_object_or_404 (\<lambda>pd. job_details_id pd = Some 1)
              (personal_details_tbl sample_state) = Inr (personal_of ann)"
    by (simp add: get_object_or_404_def sample_defs)
  have h6: "get_object_or_404 (\<lambda>j. jd_id j = 1) (job_details_tbl sample_state) = Inr ann_job"
    by (simp add: get_object_or_404_def sample_defs)
  have h7: "role ann_job = ''ADM''"
    by (simp add: sample_defs)
  have h8: "related_performance sample_state ann_job \<noteq> Inl DoesNotExist"
    by (simp add: related_performance_def sample_defs)
  from adm_target_protected [OF h1 h2 h3 h4 h5 h6 h7] h2 h4 h7 h8 show ?thesis
    by simp
qed

subsection \<open>The profile handlers and the id of the URL\<close>




subsection \<open>The employee list\<close>

lemma employees_list_result:
  assumes "user req = Some u"
    and "get_job_details_by_username st (acc_username u) = Inr (Some jd)"
    and "manager_role P (role jd)"
  shows "employees_list P st req =
     (st, Render ''main/list.html''
        (List_ctx
          (let q = (case GET_search req of None \<Rightarrow> [] | Some q \<Rightarrow> q);
               visible = (if role jd \<noteq> ''ADM'' then exclude_role ''ADM'' (select_related st)
                          else select_related st)
           in if q \<noteq> [] then filter (search_match q) visible else visible)
          (jd_id jd)))"
  using assms
  by (simp add: employees_list_def login_required_def manager_required_def
      employees_list_view_def Let_def)

text \<open>
  Claim C2. A manager asks for the employee list. When the manager's own role is not
  \<^verbatim>\<open>ADM\<close>, no row of the listing has a Job Details of role \<^verbatim>\<open>ADM\<close>. When it is \<^verbatim>\<open>ADM\<close>,
  no row is left out for its role: every joined row is listed, or with a search query
  every joined row that the query matches.
\<close>

theorem employees_list_hides_admins:
  assumes "user req = Some u"
    and "get_job_details_by_username st (acc_username u) = Inr (Some jd)"
    and "manager_role P (role jd)"
  shows "\<exists>rows. employees_list P st req = (st, Render ''main/list.html'' (List_ctx rows (jd_id jd)))
     \<and> (role jd \<noteq> ''ADM'' \<longrightarrow> (\<forall>(pd, j) \<in> set rows. \<forall>t. j = Some t \<longrightarrow> role t \<noteq> ''ADM''))
     \<and> (role jd = ''ADM'' \<longrightarrow>
          (\<forall>row \<in> set (select_related st).
             GET_search req = None \<or> GET_search req = Some [] \<or>
             search_match (case GET_search req of None \<Rightarrow> [] | Some q \<Rightarrow> q) row
             \<longrightarrow> row \<in> set rows))"
  unfolding employees_list_result [OF assms]
  by (auto simp: Let_def exclude_role_def split: option.splits)

text \<open>On the sample deployment: the manager Bob sees Bob and Cyd, the administrator Ann
  sees all three.\<close>

theorem employees_list_hides_admins_witness:
  "get_job_details_by_username sample_state (acc_username bob) = Inr (Some bob_job)
   \<and> role bob_job \<noteq> ''ADM''
   \<and> employees_list sample_platform sample_state (request_of GET bob []) =
       (sample_state, Render ''main/list.html''
          (List_ctx [(personal_of bob, Some bob_job), (personal_of cyd, Some cyd_job)] 2))
   \<and> get_job_details_by_username sample_state (acc_username ann) = Inr (Some ann_job)
   \<and> role ann_job = ''ADM''
   \<and> employees_list sample_platform sample_state (request_of GET ann []) =
       (sample_state, Render ''main/list.html''
          (List_ctx [(personal_of ann, Some ann_job), (personal_of bob, Some bob_job),
                     (personal_of cyd, Some cyd_job)] 1))"
proof -
  have b1: "user (request_of GET bob []) = Some bob"
    and a1: "user (request_of GET ann []) = Some ann"
    by (simp_all add: request_of_def)
  have b2: "get_job_details_by_username sample_state (acc_username bob) = Inr (Some bob_job)"
    and a2: "get_job_details_by_username sample_state (acc_username ann) = Inr (Some ann_job)"
    by (simp_all add: get_job_details_by_username_def get_personal_details_by_username_def
        get_object_or_404_def related_job_details_def sample_defs)
  have b3: "manager_role sample_platform (role bob_job)"
    and a3: "manager_role sample_platform (role ann_job)"
    by (simp_all add: sample_defs)
  have r: "role bob_job \<noteq> ''ADM''" "role ann_job = ''ADM''"
    by (simp_all add: sample_defs)
  have sel: "select_related sample_state =
      [(personal_of ann, Some ann_job), (personal_of bob, Some bob_job),
       (personal_of cyd, Some cyd_job)]"
    by (simp add: select_related_def sample_defs)
  have g: "GET_search (request_of GET bob []) = None" "GET_search (request_of GET ann []) = None"
    by (simp_all add: request_of_def)
  from employees_list_hides_admins [OF b1 b2 b3]
  obtain rows where
    rb: "employees_list sample_platform sample_state (request_of GET bob []) =
         (sample_state, Render ''main/list.html'' (List_ctx rows (jd_id bob_job)))"
    and "\<forall>(pd, j) \<in> set rows. \<forall>t. j = Some t \<longrightarrow> role t \<noteq> ''ADM''"
    using r by blast
  from employees_list_hides_admins [OF a1 a2 a3]
  obtain rows' where
    ra: "employees_list sample_platform sample_state (request_of GET ann []) =
         (sample_state, Render ''main/list.html'' (List_ctx rows' (jd_id ann_job)))"
    and "\<forall>row \<in> set (select_related sample_state). row \<in> set rows'"
    using r g by auto
  have eb: "employees_list sample_platform sample_state (request_of GET bob []) =
       (sample_state, Render ''main/list.html''
          (List_ctx [(personal_of bob, Some bob_job), (personal_of cyd, Some cyd_job)] 2))"
    unfolding employees_list_result [OF b1 b2 b3] using sel
    by (simp add: g exclude_role_def) (simp add: sample_defs)
  have ea: "employees_list sample_platform sample_state (request_of GET ann []) =
       (sample_state, Render ''main/list.html''
          (List_ctx [(personal_of ann, Some ann_job), (personal_of bob, Some bob_job),
                     (personal_of cyd, Some cyd_job)] 1))"
    unfolding employees_list_result [OF a1 a2 a3] using sel
    by (simp add: g exclude_role_def) (simp add: sample_defs)
  from rb eb have "rows = [(personal_of bob, Some bob_job), (personal_of cyd, Some cyd_job)]"
    by simp
  moreover from ra ea have "rows' = [(personal_of ann, Some ann_job), (personal_of bob, Some bob_job),
                     (personal_of cyd, Some cyd_job)]"
    by simp
  ultimately show ?thesis using b2 a2 r rb ra by (simp add: bob_job_def ann_job_def)
qed


text \<open>The folding of letters in \<open>icontains\<close> is the comparison of letters without
  their case, and \<open>icontains\<close> is the occurrence of the query without regard to case.\<close>

lemma upper_codes:
  "c \<in> set ''ABCDEFGHIJKLMNOPQRSTUVWXYZ'' \<longleftrightarrow> 65 \<le> (of_char c :: nat) \<and> (of_char c :: nat) \<le> 90"
proof -
  have "map of_char ''ABCDEFGHIJKLMNOPQRSTUVWXYZ'' = [65..<91::nat]"
    by (simp add: upt_rec_numeral)
  then have "set (map of_char ''ABCDEFGHIJKLMNOPQRSTUVWXYZ'') = set [65..<91::nat]"
    by (rule arg_cong)
  then have r: "of_char ` set ''ABCDEFGHIJKLMNOPQRSTUVWXYZ'' = {65..<91::nat}"
    by (simp only: set_map set_upt)
  have "c \<in> set ''ABCDEFGHIJKLMNOPQRSTUVWXYZ''
      \<longleftrightarrow> (of_char c :: nat) \<in> of_char ` set ''ABCDEFGHIJKLMNOPQRSTUVWXYZ''"
    by (rule inj_image_mem_iff [OF inj_of_char, symmetric])
  also have "\<dots> \<longleftrightarrow> (of_char c :: nat) \<in> {65..<91}"
    by (simp only: r)
  finally show ?thesis by auto
qed

lemma lower_char_upper:
  "c \<in> set ''ABCDEFGHIJKLMNOPQRSTUVWXYZ'' \<Longrightarrow> (of_char (lower_char c) :: nat) = of_char c + 32"
  by (auto simp: lower_char_def)

lemma lower_char_other:
  "c \<notin> set ''ABCDEFGHIJKLMNOPQRSTUVWXYZ'' \<Longrightarrow> lower_char c = c"
proof -
  assume "c \<notin> set ''ABCDEFGHIJKLMNOPQRSTUVWXYZ''"
  then have "map_of (zip ''ABCDEFGHIJKLMNOPQRSTUVWXYZ'' ''abcdefghijklmnopqrstuvwxyz'') c = None"
    by (subst map_of_zip_is_None) simp_all
  then show ?thesis by (simp add: lower_char_def)
qed

lemma lower_char_code:
  "(of_char (lower_char c) :: nat) =
     (if 65 \<le> (of_char c :: nat) \<and> (of_char c :: nat) \<le> 90 then of_char c + 32 else of_char c)"
  using lower_char_upper [of c] lower_char_other [of c] upper_codes [of c] by auto

lemma lower_char_eq_iff: "lower_char c = lower_char d \<longleftrightarrow> same_letter c d"
proof -
  have "lower_char c = lower_char d
      \<longleftrightarrow> (of_char (lower_char c) :: nat) = of_char (lower_char d)"
    by simp
  also have "\<dots> \<longleftrightarrow> (of_char c :: nat) = of_char d
     \<or> (65 \<le> (of_char c :: nat) \<and> (of_char c :: nat) \<le> 90 \<and> (of_char d :: nat) = of_char c + 32)
     \<or> (65 \<le> (of_char d :: nat) \<and> (of_char d :: nat) \<le> 90 \<and> (of_char c :: nat) = of_char d + 32)"
    unfolding lower_char_code by auto
  finally show ?thesis by (simp add: same_letter_def)
qed

lemma map_lower_char_eq_iff:
  "map lower_char m = map lower_char q \<longleftrightarrow> list_all2 same_letter m q"
proof -
  have "map lower_char m = map lower_char q
      \<longleftrightarrow> list_all2 (=) (map lower_char m) (map lower_char q)"
    by (simp add: list.rel_eq)
  also have "\<dots> \<longleftrightarrow> list_all2 (\<lambda>a b. lower_char a = lower_char b) m q"
    by (simp add: list_all2_map1 list_all2_map2)
  finally show ?thesis by (simp add: lower_char_eq_iff)
qed

lemma icontains_occurs: "icontains s q \<longleftrightarrow> occurs_ignoring_case q s"
proof
  assume "icontains s q"
  then obtain ps ss where "map lower_char s = ps @ map lower_char q @ ss"
    by (auto simp: icontains_def sublist_def)
  then have "\<exists>s1 s2. s = s1 @ s2 \<and> ps = map lower_char s1
      \<and> map lower_char q @ ss = map lower_char s2"
    by (simp only: map_eq_append_conv)
  then obtain s1 s2 where s: "s = s1 @ s2" and "map lower_char s2 = map lower_char q @ ss"
    by (elim exE conjE) (rule that, assumption, rule sym)
  then have "\<exists>m s3. s2 = m @ s3 \<and> map lower_char q = map lower_char m \<and> ss = map lower_char s3"
    by (simp only: map_eq_append_conv)
  then obtain m s3 where "s2 = m @ s3" and "map lower_char m = map lower_char q"
    by (elim exE conjE) (rule that, assumption, rule sym)
  with s have "s = s1 @ m @ s3" and "map lower_char m = map lower_char q"
    by simp_all
  then show "occurs_ignoring_case q s"
    unfolding occurs_ignoring_case_def map_lower_char_eq_iff by blast
next
  assume "occurs_ignoring_case q s"
  then obtain ps m ss where s: "s = ps @ m @ ss" and "map lower_char m = map lower_char q"
    unfolding occurs_ignoring_case_def map_lower_char_eq_iff by blast
  then have "map lower_char s = map lower_char ps @ map lower_char q @ map lower_char ss"
    by simp
  then show "icontains s q"
    unfolding icontains_def sublist_def by blast
qed

text \<open>
  Claim C7. A manager asks for the employee list with a search query that is not empty.
  The listing is, in the order of the table, every Personal Details row, joined to the
  Job Details row it links to, that is visible (the caller's role is \<^verbatim>\<open>ADM\<close>, or the
  row's Job Details is not of role \<^verbatim>\<open>ADM\<close>) and that the query matches: the query
  occurs, letter case put aside, in the first name, or in the last name, or in the
  department of the row's Job Details. So a visible row whose department contains the
  query in any letter case is listed, and when no visible row matches the listing is
  empty.
\<close>

theorem employees_list_search:
  assumes "user req = Some u"
    and "get_job_details_by_username st (acc_username u) = Inr (Some jd)"
    and "manager_role P (role jd)"
    and "GET_search req = Some q"
    and "q \<noteq> []"
    and "joined = (\<lambda>pd. case job_details_id pd of
                          None \<Rightarrow> None
                        | Some k \<Rightarrow> find (\<lambda>j. jd_id j = k) (job_details_tbl st))"
    and "visible = (\<lambda>pd. role jd = ''ADM'' \<or> (\<forall>t. joined pd = Some t \<longrightarrow> role t \<noteq> ''ADM''))"
    and "matches = (\<lambda>pd. occurs_ignoring_case q (first_name pd)
                        \<or> occurs_ignoring_case q (last_name pd)
                        \<or> (\<exists>t. joined pd = Some t \<and> occurs_ignoring_case q (department t)))"
  shows "employees_list P st req =
           (st, Render ''main/list.html''
                  (List_ctx
                     (map (\<lambda>pd. (pd, joined pd))
                        (filter (\<lambda>pd. visible pd \<and> matches pd) (personal_details_tbl st)))
                     (jd_id jd)))
     \<and> (\<forall>pd t. pd \<in> set (personal_details_tbl st) \<and> visible pd \<and> joined pd = Some t
            \<and> occurs_ignoring_case q (department t)
          \<longrightarrow> (pd, Some t) \<in> set (map (\<lambda>pd. (pd, joined pd))
                        (filter (\<lambda>pd. visible pd \<and> matches pd) (personal_details_tbl st))))
     \<and> ((\<forall>pd \<in> set (personal_details_tbl st). visible pd \<longrightarrow> \<not> matches pd)
          \<longrightarrow> employees_list P st req = (st, Render ''main/list.html'' (List_ctx [] (jd_id jd))))"
proof -
  have sel: "select_related st = map (\<lambda>pd. (pd, joined pd)) (personal_details_tbl st)"
    by (simp add: select_related_def assms(6))
  have sm: "search_match q (pd, joined pd) \<longleftrightarrow> matches pd" for pd
    by (cases "joined pd") (simp_all add: search_match_def icontains_occurs assms(8))
  have ex: "(case (pd, joined pd) of (pd, j) \<Rightarrow> case j of None \<Rightarrow> True | Some t \<Rightarrow> role t \<noteq> ''ADM'')
      \<longleftrightarrow> (\<forall>t. joined pd = Some t \<longrightarrow> role t \<noteq> ''ADM'')" for pd
    by (cases "joined pd") simp_all
  have vis: "(if role jd \<noteq> ''ADM'' then exclude_role ''ADM'' (select_related st)
              else select_related st)
      = map (\<lambda>pd. (pd, joined pd)) (filter visible (personal_details_tbl st))"
    unfolding sel exclude_role_def filter_map o_def ex
    by (simp add: assms(7))
  have e: "employees_list P st req =
           (st, Render ''main/list.html''
                  (List_ctx
                     (map (\<lambda>pd. (pd, joined pd))
                        (filter (\<lambda>pd. visible pd \<and> matches pd) (personal_details_tbl st)))
                     (jd_id jd)))"
    unfolding employees_list_result [OF assms(1-3)] using assms(4,5)
    by (simp add: Let_def vis filter_map o_def sm conj_commute)
  have n: "(\<forall>pd \<in> set (personal_details_tbl st). visible pd \<longrightarrow> \<not> matches pd)
      \<longrightarrow> filter (\<lambda>pd. visible pd \<and> matches pd) (personal_details_tbl st) = []"
    by (auto simp: filter_empty_conv)
  have d: "pd \<in> set (personal_details_tbl st) \<and> visible pd \<and> joined pd = Some t
            \<and> occurs_ignoring_case q (department t) \<longrightarrow> matches pd" for pd t
    by (auto simp: assms(8))
  from e n d show ?thesis by auto
qed

text \<open>On the sample deployment: Bob's query \<^verbatim>\<open>sAl\<close> finds Cyd of the department
  \<^verbatim>\<open>Sales\<close>, the query \<^verbatim>\<open>oB\<close> finds Bob by the first name, and the query \<^verbatim>\<open>zzz\<close>
  finds nobody.\<close>

lemma occurs_sublist:
  "occurs_ignoring_case q s \<longleftrightarrow> sublist (map lower_char q) (map lower_char s)"
  by (simp add: icontains_occurs [symmetric] icontains_def)

lemma sample_occurs:
  "occurs_ignoring_case ''sAl'' ''Sales''"
  "\<not> occurs_ignoring_case ''sAl'' ''Cyd''"
  "\<not> occurs_ignoring_case ''sAl'' ''Fox''"
  "\<not> occurs_ignoring_case ''sAl'' ''Bob''"
  "\<not> occurs_ignoring_case ''sAl'' ''Ray''"
  "\<not> occurs_ignoring_case ''sAl'' ''HR''"
  "occurs_ignoring_case ''oB'' ''Bob''"
  "\<not> occurs_ignoring_case ''oB'' ''Ray''"
  "\<not> occurs_ignoring_case ''oB'' ''HR''"
  "\<not> occurs_ignoring_case ''oB'' ''Cyd''"
  "\<not> occurs_ignoring_case ''oB'' ''Fox''"
  "\<not> occurs_ignoring_case ''oB'' ''Sales''"
  "\<not> occurs_ignoring_case ''zzz'' ''Bob''"
  "\<not> occurs_ignoring_case ''zzz'' ''Ray''"
  "\<not> occurs_ignoring_case ''zzz'' ''HR''"
  "\<not> occurs_ignoring_case ''zzz'' ''Cyd''"
  "\<not> occurs_ignoring_case ''zzz'' ''Fox''"
  "\<not> occurs_ignoring_case ''zzz'' ''Sales''"
  by (simp_all add: occurs_sublist lower_char_def sublist_code)

theorem employees_list_search_witness:
  "employees_list sample_platform sample_state ((request_of GET bob [])\<lparr>GET_search := Some ''sAl''\<rparr>)
     = (sample_state, Render ''main/list.html'' (List_ctx [(personal_of cyd, Some cyd_job)] 2))
   \<and> department cyd_job = ''Sales''
   \<and> employees_list sample_platform sample_state ((request_of GET bob [])\<lparr>GET_search := Some ''oB''\<rparr>)
     = (sample_state, Render ''main/list.html'' (List_ctx [(personal_of bob, Some bob_job)] 2))
   \<and> first_name (personal_of bob) = ''Bob''
   \<and> employees_list sample_platform sample_state ((request_of GET bob [])\<lparr>GET_search := Some ''zzz''\<rparr>)
     = (sample_state, Render ''main/list.html'' (List_ctx [] 2))"
proof -
  have h1: "user ((request_of GET bob [])\<lparr>GET_search := Some q\<rparr>) = Some bob" for q
    by (simp add: request_of_def)
  have h2: "get_job_details_by_username sample_state (acc_username bob) = Inr (Some bob_job)"
    by (simp add: get_job_details_by_username_def get_personal_details_by_username_def
        get_object_or_404_def related_job_details_def sample_defs)
  have h3: "manager_role sample_platform (role bob_job)"
    by (simp add: sample_defs)
  have h4: "GET_search ((request_of GET bob [])\<lparr>GET_search := Some q\<rparr>) = Some q" for q
    by simp
  have t: "personal_details_tbl sample_state = [personal_of ann, personal_of bob, personal_of cyd]"
    by (simp add: sample_state_def)
  have jn: "(case job_details_id (personal_of ann) of None \<Rightarrow> None
             | Some k \<Rightarrow> find (\<lambda>j. jd_id j = k) (job_details_tbl sample_state)) = Some ann_job"
    "(case job_details_id (personal_of bob) of None \<Rightarrow> None
             | Some k \<Rightarrow> find (\<lambda>j. jd_id j = k) (job_details_tbl sample_state)) = Some bob_job"
    "(case job_details_id (personal_of cyd) of None \<Rightarrow> None
             | Some k \<Rightarrow> find (\<lambda>j. jd_id j = k) (job_details_tbl sample_state)) = Some cyd_job"
    by (simp_all add: sample_defs)
  have n: "first_name (personal_of bob) = ''Bob''" "last_name (personal_of bob) = ''Ray''"
    "first_name (personal_of cyd) = ''Cyd''" "last_name (personal_of cyd) = ''Fox''"
    "department bob_job = ''HR''" "department cyd_job = ''Sales''"
    "role ann_job = ''ADM''" "role bob_job \<noteq> ''ADM''" "role cyd_job \<noteq> ''ADM''"
    "jd_id bob_job = 2"
    by (simp_all add: sample_defs)
  have a: "employees_list sample_platform sample_state ((request_of GET bob [])\<lparr>GET_search := Some ''sAl''\<rparr>)
     = (sample_state, Render ''main/list.html'' (List_ctx [(personal_of cyd, Some cyd_job)] 2))"
    using employees_list_search [OF h1 h2 h3 h4 _ refl refl refl, where q = "''sAl''", THEN conjunct1]
    unfolding t by (simp add: jn n sample_occurs)
  have b: "employees_list sample_platform sample_state ((request_of GET bob [])\<lparr>GET_search := Some ''oB''\<rparr>)
     = (sample_state, Render ''main/list.html'' (List_ctx [(personal_of bob, Some bob_job)] 2))"
    using employees_list_search [OF h1 h2 h3 h4 _ refl refl refl, where q = "''oB''", THEN conjunct1]
    unfolding t by (simp add: jn n sample_occurs)
  have c: "employees_list sample_platform sample_state ((request_of GET bob [])\<lparr>GET_search := Some ''zzz''\<rparr>)
     = (sample_state, Render ''main/list.html'' (List_ctx [] 2))"
    using employees_list_search [OF h1 h2 h3 h4 _ refl refl refl, where q = "''zzz''", THEN conjunct1]
    unfolding t by (simp add: jn n sample_occurs)
  from a b c n show ?thesis by simp
qed

subsection \<open>Editing an employee\<close>

lemma find_save_row:
  "find (\<lambda>r. key r = key x) (save_row key x rows) = Some x"
proof (cases "key x \<in> set (map key rows)")
  case True
  have "key x \<in> set (map key rs) \<Longrightarrow>
      find (\<lambda>r. key r = key x) (map (\<lambda>r. if key r = key x then x else r) rs) = Some x" for rs
    by (induction rs) auto
  with True show ?thesis by (simp add: save_row_def)
next
  case False
  have "key x \<notin> set (map key rs) \<Longrightarrow> find (\<lambda>r. key r = key x) (rs @ [x]) = Some x" for rs
    by (induction rs) auto
  with False show ?thesis by (simp add: save_row_def)
qed



subsection \<open>Deleting an employee\<close>

lemma get_object_or_404_Inr:
  "get_object_or_404 p rows = Inr x \<Longrightarrow> filter p rows = [x]"
  by (cases "filter p rows" rule: remdups_adj.cases) (simp_all add: get_object_or_404_def)

lemma get_object_or_404_deleted:
  assumes "filter p rows = [x]"
  shows "get_object_or_404 p (filter (\<lambda>v. key v \<noteq> key x) rows) = Inl Http404"
proof -
  have "filter p (filter (\<lambda>v. key v \<noteq> key x) rows)
          = filter (\<lambda>v. key v \<noteq> key x) (filter p rows)"
    by (simp add: conj_commute)
  with assms show ?thesis by (simp add: get_object_or_404_def)
qed

text \<open>
  Claim C3. A manager who passes the check on the administrator role confirms (POST) the
  deletion of an employee whose Personal Details, Job Details and Account are found. The
  Account of the Personal Details' username is removed, then the Personal Details row
  with its Job Details row and that row's Performance row; looking the employee up
  again, by username among the accounts or by the id among the Personal Details, the Job
  Details or the Performance records, finds no row; the response is the redirect to the
  list with the success message.
\<close>

theorem delete_employee_removes:
  assumes "user req = Some u"
    and "get_job_details_by_username st (acc_username u) = Inr (Some self_jd)"
    and "manager_role P (role self_jd)"
    and "\<not> (role jd = ''ADM'' \<and> role self_jd \<noteq> ''ADM'')"
    and "get_object_or_404 (\<lambda>pd. job_details_id pd = Some emp_id) (personal_details_tbl st) = Inr pd"
    and "get_object_or_404 (\<lambda>j. jd_id j = emp_id) (job_details_tbl st) = Inr jd"
    and "req_method req = POST"
    and "get_object_or_404 (\<lambda>a. acc_username a = username pd) (users st) = Inr a"
  shows "\<exists>st'. delete_employee P st req emp_id = (st', Redirect ''main:list'')
     \<and> messages st' = [(SUCCESS, ''Employee deleted successfully.'')]
     \<and> users st' = filter (\<lambda>v. acc_id v \<noteq> acc_id a) (users st)
     \<and> personal_details_tbl st' = filter (\<lambda>p. pd_id p \<noteq> pd_id pd) (personal_details_tbl st)
     \<and> job_details_tbl st' = filter (\<lambda>j. jd_id j \<noteq> emp_id) (job_details_tbl st)
     \<and> performances st' = filter (\<lambda>p. Some (perf_id p) \<noteq> performance_id jd) (performances st)
     \<and> session_auth st' = session_auth st
     \<and> get_object_or_404 (\<lambda>a. acc_username a = username pd) (users st') = Inl Http404
     \<and> get_object_or_404 (\<lambda>pd. job_details_id pd = Some emp_id) (personal_details_tbl st')
          = Inl Http404
     \<and> get_object_or_404 (\<lambda>j. jd_id j = emp_id) (job_details_tbl st') = Inl Http404
     \<and> (\<forall>k. performance_id jd = Some k \<longrightarrow>
           get_object_or_404 (\<lambda>p. perf_id p = k) (performances st') = Inl Http404)"
proof -
  let ?st' = "add_message SUCCESS ''Employee deleted successfully.''
                (PersonalDetails_delete (delete_user (clear_messages st) a) pd)"
  have fp: "filter (\<lambda>pd. job_details_id pd = Some emp_id) (personal_details_tbl st) = [pd]"
    and fj: "filter (\<lambda>j. jd_id j = emp_id) (job_details_tbl st) = [jd]"
    and fa: "filter (\<lambda>a. acc_username a = username pd) (users st) = [a]"
    using assms(5,6,8) by (simp_all add: get_object_or_404_Inr)
  from fp have "pd \<in> set (filter (\<lambda>pd. job_details_id pd = Some emp_id) (personal_details_tbl st))"
    by simp
  then have link: "job_details_id pd = Some emp_id" by simp
  have p: "delete_employee_proceed P (clear_messages st) req pd jd = (?st', Redirect ''main:list'')"
    using assms(7,8) by (simp add: delete_employee_proceed_def)
  have e: "delete_employee P st req emp_id = (?st', Redirect ''main:list'')"
    using assms(1-6) p
    by (simp add: delete_employee_def login_required_def manager_required_def
        delete_employee_view_def Let_def)
  have m: "messages ?st' = [(SUCCESS, ''Employee deleted successfully.'')]"
    by (simp add: add_message_def PersonalDetails_delete_def delete_user_def
        clear_messages_def Let_def)
  have us: "users ?st' = filter (\<lambda>v. acc_id v \<noteq> acc_id a) (users st)"
    by (simp add: add_message_def PersonalDetails_delete_def delete_user_def
        clear_messages_def Let_def)
  have ps: "personal_details_tbl ?st' = filter (\<lambda>p. pd_id p \<noteq> pd_id pd) (personal_details_tbl st)"
    by (simp add: add_message_def PersonalDetails_delete_def delete_user_def
        clear_messages_def Let_def)
  have js: "job_details_tbl ?st' = filter (\<lambda>j. jd_id j \<noteq> emp_id) (job_details_tbl st)"
    using link
    by (simp add: add_message_def PersonalDetails_delete_def delete_user_def
        clear_messages_def Let_def)
  have pf: "performances ?st' = filter (\<lambda>p. Some (perf_id p) \<noteq> performance_id jd) (performances st)"
    using link fj
    by (simp add: add_message_def PersonalDetails_delete_def delete_user_def
        clear_messages_def Let_def)
  have ss: "session_auth ?st' = session_auth st"
    by (simp add: add_message_def PersonalDetails_delete_def delete_user_def
        clear_messages_def Let_def)
  have l1: "get_object_or_404 (\<lambda>a. acc_username a = username pd) (users ?st') = Inl Http404"
    unfolding us using fa by (rule get_object_or_404_deleted)
  have l2: "get_object_or_404 (\<lambda>pd. job_details_id pd = Some emp_id) (personal_details_tbl ?st')
          = Inl Http404"
    unfolding ps using fp by (rule get_object_or_404_deleted)
  have l3: "get_object_or_404 (\<lambda>j. jd_id j = emp_id) (job_details_tbl ?st') = Inl Http404"
    unfolding js by (simp add: get_object_or_404_def)
  have l4: "get_object_or_404 (\<lambda>p. perf_id p = k) (performances ?st') = Inl Http404"
    if "performance_id jd = Some k" for k
    unfolding pf using that by (simp add: get_object_or_404_def)
  from e m us ps js pf ss l1 l2 l3 l4 show ?thesis by blast
qed


text \<open>On the sample deployment: Bob deletes Cyd.\<close>

theorem delete_employee_removes_witness:
  "delete_employee sample_platform sample_state (request_of POST bob []) 3
   = (sample_state
        \<lparr>users := [ann, bob],
         performances := [blank_performance 1, blank_performance 2],
         job_details_tbl := [ann_job, bob_job],
         personal_details_tbl := [personal_of ann, personal_of bob],
         messages := [(SUCCESS, ''Employee deleted successfully.'')]\<rparr>,
      Redirect ''main:list'')
   \<and> get_object_or_404 (\<lambda>a. acc_username a = ''cyd'') [ann, bob] = Inl Http404
   \<and> get_object_or_404 (\<lambda>pd. job_details_id pd = Some 3) [personal_of ann, personal_of bob]
       = Inl Http404"
proof -
  have h1: "user (request_of POST bob []) = Some bob"
    by (simp add: request_of_def)
  have h2: "get_job_details_by_username sample_state (acc_username bob) = Inr (Some bob_job)"
    by (simp add: get_job_details_by_username_def get_personal_details_by_username_def
        get_object_or_404_def related_job_details_def sample_defs)
  have h3: "manager_role sample_platform (role bob_job)"
    by (simp add: sample_defs)
  have h4: "\<not> (role cyd_job = ''ADM'' \<and> role bob_job \<noteq> ''ADM'')"
    by (simp add: sample_defs)
  have h5: "get_object_or_404 (\<lambda>pd. job_details_id pd = Some 3)
              (personal_details_tbl sample_state) = Inr (personal_of cyd)"
    by (simp add: get_object_or_404_def sample_defs)
  have h6: "get_object_or_404 (\<lambda>j. jd_id j = 3) (job_details_tbl sample_state) = Inr cyd_job"
    by (simp add: get_object_or_404_def sample_defs)
  have h7: "req_method (request_of POST bob []) = POST"
    by (simp add: request_of_def)
  have h8: "get_object_or_404 (\<lambda>a. acc_username a = username (personal_of cyd))
              (users sample_state) = Inr cyd"
    by (simp add: get_object_or_404_def sample_defs)
  have t: "users sample_state = [ann, bob, cyd]"
    "personal_details_tbl sample_state = [personal_of ann, personal_of bob, personal_of cyd]"
    "job_details_tbl sample_state = [ann_job, bob_job, cyd_job]"
    "performances sample_state = [blank_performance 1, blank_performance 2, blank_performance 3]"
    "session_auth sample_state = None"
    by (simp_all add: sample_state_def)
  have f: "filter (\<lambda>v. acc_id v \<noteq> acc_id cyd) [ann, bob, cyd] = [ann, bob]"
    "filter (\<lambda>p. pd_id p \<noteq> pd_id (personal_of cyd))
       [personal_of ann, personal_of bob, personal_of cyd] = [personal_of ann, personal_of bob]"
    "filter (\<lambda>j. jd_id j \<noteq> 3) [ann_job, bob_job, cyd_job] = [ann_job, bob_job]"
    "filter (\<lambda>p. Some (perf_id p) \<noteq> performance_id cyd_job)
       [blank_performance 1, blank_performance 2, blank_performance 3]
       = [blank_performance 1, blank_performance 2]"
    "username (personal_of cyd) = ''cyd''"
    by (simp_all add: sample_defs)
  from delete_employee_removes [OF h1 h2 h3 h4 h5 h6 h7 h8]
  obtain st' where r: "delete_employee sample_platform sample_state (request_of POST bob []) 3
        = (st', Redirect ''main:list'')"
    and m: "messages st' = [(SUCCESS, ''Employee deleted successfully.'')]"
    and u: "users st' = [ann, bob]"
    and p: "personal_details_tbl st' = [personal_of ann, personal_of bob]"
    and j: "job_details_tbl st' = [ann_job, bob_job]"
    and q: "performances st' = [blank_performance 1, blank_performance 2]"
    and l: "get_object_or_404 (\<lambda>a. acc_username a = ''cyd'') (users st') = Inl Http404"
      "get_object_or_404 (\<lambda>pd. job_details_id pd = Some 3) (personal_details_tbl st')
          = Inl Http404"
    and s: "session_auth st' = None"
    unfolding t f by blast
  have "st' = sample_state
        \<lparr>users := [ann, bob],
         performances := [blank_performance 1, blank_performance 2],
         job_details_tbl := [ann_job, bob_job],
         personal_details_tbl := [personal_of ann, personal_of bob],
         messages := [(SUCCESS, ''Employee deleted successfully.'')]\<rparr>"
    using m u p j q s t(5) by simp
  with r l u p show ?thesis by simp
qed

subsection \<open>Registration\<close>

lemma le_foldr_max: "k \<in> set ks \<Longrightarrow> k \<le> foldr max ks (0::nat)"
  by (induction ks) auto

lemma fresh_id_new: "fresh_id ks \<notin> set ks"
proof
  assume "fresh_id ks \<in> set ks"
  then have "fresh_id ks \<le> foldr max ks 0" by (rule le_foldr_max)
  then show False by (simp add: fresh_id_def)
qed

text \<open>
  Claim C4. A registration form is posted and is valid, and no account holds the new
  username (the save of the account would raise otherwise). Then each of the four tables
  grows by exactly one row under a key that was not in use, and nothing else changes but
  the success message: the account the form built; a Performance row with the default
  fields; a Job Details row with the default fields that links to that Performance row;
  a Personal Details row that links to that Job Details row and whose first name, last
  name, username, email and password are those of the account.
\<close>

theorem user_register_creates:
  assumes "req_method req = POST"
    and "RegisterForm P st (POST_data req) = Some unsaved"
    and "\<forall>v \<in> set (users st). acc_username v \<noteq> acc_username unsaved"
    and "u = unsaved\<lparr>acc_id := fresh_id (map acc_id (users st))\<rparr>"
    and "perf = (Performance_default P)\<lparr>perf_id := fresh_id (map perf_id (performances st))\<rparr>"
    and "jd = (JobDetails_default P)
                \<lparr>jd_id := fresh_id (map jd_id (job_details_tbl st)),
                 performance_id := Some (perf_id perf)\<rparr>"
    and "pd = \<lparr>pd_id = fresh_id (map pd_id (personal_details_tbl st)),
               first_name = acc_first_name u, last_name = acc_last_name u,
               username = acc_username u, email = acc_email u, password = acc_password u,
               job_details_id = Some (jd_id jd)\<rparr>"
  shows "user_register P st req =
           (st\<lparr>users := users st @ [u],
               performances := performances st @ [perf],
               job_details_tbl := job_details_tbl st @ [jd],
               personal_details_tbl := personal_details_tbl st @ [pd],
               messages := messages st @ [(SUCCESS, ''Registration successful!'')]\<rparr>,
            Redirect ''/'')
         \<and> acc_id u \<notin> set (map acc_id (users st))
         \<and> perf_id perf \<notin> set (map perf_id (performances st))
         \<and> jd_id jd \<notin> set (map jd_id (job_details_tbl st))
         \<and> pd_id pd \<notin> set (map pd_id (personal_details_tbl st))"
proof -
  have nu: "acc_id u \<notin> set (map acc_id (users st))"
    and np: "perf_id perf \<notin> set (map perf_id (performances st))"
    and nj: "jd_id jd \<notin> set (map jd_id (job_details_tbl st))"
    and nd: "pd_id pd \<notin> set (map pd_id (personal_details_tbl st))"
    using assms(4-7) fresh_id_new [of "map acc_id (users st)"]
      fresh_id_new [of "map perf_id (performances st)"]
      fresh_id_new [of "map jd_id (job_details_tbl st)"]
      fresh_id_new [of "map pd_id (personal_details_tbl st)"]
    by simp_all
  have su: "save_user st u = Inr (st\<lparr>users := users st @ [u]\<rparr>)"
    using assms(3) nu assms(4) by (simp add: save_user_def save_row_def)
  have r: "user_register P st req =
           (st\<lparr>users := users st @ [u],
               performances := performances st @ [perf],
               job_details_tbl := job_details_tbl st @ [jd],
               personal_details_tbl := personal_details_tbl st @ [pd],
               messages := messages st @ [(SUCCESS, ''Registration successful!'')]\<rparr>,
            Redirect ''/'')"
    using assms(1,2) su [unfolded assms(4)] assms(4-7)
    by (simp add: user_register_def Let_def create_performance_def create_job_details_def
        create_personal_details_def add_message_def)
  from r nu np nj nd show ?thesis by blast
qed

text \<open>On the sample deployment: Dee registers.\<close>

theorem user_register_creates_witness:
  "user_register sample_platform sample_state
     \<lparr>req_method = POST, user = None, GET_search = None,
      POST_data = [(''username'', ''dee''), (''first_name'', ''Dee''), (''last_name'', ''Orr''),
        (''email'', ''dee@x.org''), (''password1'', ''s3cret''), (''password2'', ''s3cret'')]\<rparr>
   = (sample_state
        \<lparr>users := [ann, bob, cyd,
            \<lparr>acc_id = 4, acc_username = ''dee'', acc_first_name = ''Dee'',
             acc_last_name = ''Orr'', acc_email = ''dee@x.org'',
             acc_password = ''hash$s3cret'', is_active = True\<rparr>],
         performances := [blank_performance 1, blank_performance 2, blank_performance 3,
            blank_performance 4],
         job_details_tbl := [ann_job, bob_job, cyd_job,
            \<lparr>jd_id = 4, role = [], department = [], performance_id = Some 4\<rparr>],
         personal_details_tbl := [personal_of ann, personal_of bob, personal_of cyd,
            \<lparr>pd_id = 4, first_name = ''Dee'', last_name = ''Orr'', username = ''dee'',
             email = ''dee@x.org'', password = ''hash$s3cret'', job_details_id = Some 4\<rparr>],
         messages := [(SUCCESS, ''Welcome back.''), (SUCCESS, ''Registration successful!'')]\<rparr>,
      Redirect ''/'')"
proof -
  let ?req = "\<lparr>req_method = POST, user = None, GET_search = None,
      POST_data = [(''username'', ''dee''), (''first_name'', ''Dee''), (''last_name'', ''Orr''),
        (''email'', ''dee@x.org''), (''password1'', ''s3cret''), (''password2'', ''s3cret'')]\<rparr>"
  let ?un = "\<lparr>acc_id = 0, acc_username = ''dee'', acc_first_name = ''Dee'',
             acc_last_name = ''Orr'', acc_email = ''dee@x.org'',
             acc_password = ''hash$s3cret'', is_active = True\<rparr>"
  have h1: "req_method ?req = POST" by simp
  have h2: "RegisterForm sample_platform sample_state (POST_data ?req) = Some ?un"
    by (simp add: sample_platform_def field_def)
  have h3: "\<forall>v \<in> set (users sample_state). acc_username v \<noteq> acc_username ?un"
    by (simp add: sample_defs)
  have k: "fresh_id (map acc_id (users sample_state)) = 4"
    "fresh_id (map perf_id (performances sample_state)) = 4"
    "fresh_id (map jd_id (job_details_tbl sample_state)) = 4"
    "fresh_id (map pd_id (personal_details_tbl sample_state)) = 4"
    by (simp_all add: fresh_id_def sample_defs)
  from user_register_creates [OF h1 h2 h3 refl refl refl refl]
  show ?thesis
    unfolding k by (simp add: sample_defs)
qed

subsection \<open>Editing the own profile\<close>

lemma find_save_row_unique:
  assumes "\<forall>v \<in> set rows. key v \<noteq> key x \<longrightarrow> f v \<noteq> f x"
  shows "find (\<lambda>v. f v = f x) (save_row key x rows) = Some x"
proof (cases "key x \<in> set (map key rows)")
  case True
  have "key x \<in> set (map key rs) \<Longrightarrow> \<forall>v \<in> set rs. key v \<noteq> key x \<longrightarrow> f v \<noteq> f x \<Longrightarrow>
      find (\<lambda>v. f v = f x) (map (\<lambda>r. if key r = key x then x else r) rs) = Some x" for rs
    by (induction rs) auto
  with True assms show ?thesis by (simp add: save_row_def)
next
  case False
  have "key x \<notin> set (map key rs) \<Longrightarrow> \<forall>v \<in> set rs. key v \<noteq> key x \<longrightarrow> f v \<noteq> f x \<Longrightarrow>
      find (\<lambda>v. f v = f x) (rs @ [x]) = Some x" for rs
    by (induction rs) auto
  with False assms show ?thesis by (simp add: save_row_def)
qed

lemma save_user_Inr:
  assumes "save_user st a = Inr st2"
  shows "st2 = st\<lparr>users := save_row acc_id a (users st)\<rparr>"
    and "\<forall>v \<in> set (users st). acc_id v \<noteq> acc_id a \<longrightarrow> acc_username v \<noteq> acc_username a"
  using assms by (auto simp: save_user_def split: if_splits)

lemma save_user_ok:
  assumes "\<forall>v \<in> set (users st). acc_id v \<noteq> acc_id a \<longrightarrow> acc_username v \<noteq> acc_username a"
  shows "save_user st a = Inr (st\<lparr>users := save_row acc_id a (users st)\<rparr>)"
  using assms by (auto simp: save_user_def)

lemma update_profile_post:
  assumes "user req = Some u"
    and "get_object_or_404 (\<lambda>pd. username pd = acc_username u) (personal_details_tbl st) = Inr pd"
    and "req_method req = POST"
    and "EditProfileForm P (clear_messages st) pd (POST_data req) = Some cd"
  shows "update_profile P st req i = update_profile_valid P (clear_messages st) req u pd cd i"
  using assms
  by (simp add: update_profile_def login_required_def update_profile_view_def Let_def)

lemma update_profile_valid_success:
  assumes "update_profile_valid P st req u pd cd i = (st', r)"
    and "\<forall>e. r \<noteq> Raise e"
  shows "\<exists>ux st2. save_user (EditProfileForm_save cd pd st) ux = Inr st2
     \<and> acc_id ux = acc_id u \<and> acc_username ux = pc_username cd \<and> acc_email ux = pc_email cd
     \<and> users st' = users st2 \<and> personal_details_tbl st' = personal_details_tbl st2"
  using assms
  by (auto simp: update_profile_valid_def Let_def add_message_def login_def
      split: option.splits sum.splits if_splits)
    (rule exI, rule exI, rule conjI, assumption, simp)+

lemma sample_profile_lookup:
  "get_object_or_404 (\<lambda>pd. username pd = acc_username cyd) (personal_details_tbl sample_state)
     = Inr (personal_of cyd)"
  "get_object_or_404 (\<lambda>pd. username pd = acc_username (cyd\<lparr>is_active := False\<rparr>))
     (personal_details_tbl sample_state) = Inr (personal_of cyd)"
  by (simp_all add: get_object_or_404_def sample_defs)

lemma sample_profile_form:
  "EditProfileForm sample_platform s pd cyd_post = Some (cyd_cleaned (Some ''n3w''))"
  "EditProfileForm sample_platform s pd cyd_post_plain = Some (cyd_cleaned None)"
  by (simp_all add: sample_platform_def field_def cyd_post_def cyd_post_plain_def cyd_cleaned_def)

lemma sample_profile_edit:
  "update_profile sample_platform sample_state (request_of POST cyd cyd_post) 3 =
     (sample_state
        \<lparr>users := [ann, bob, cyd\<lparr>acc_username := ''cy'', acc_email := ''cy@x.org'',
                                  acc_password := ''hash$n3w''\<rparr>],
         personal_details_tbl := [personal_of ann, personal_of bob,
            (personal_of cyd)\<lparr>username := ''cy'', email := ''cy@x.org''\<rparr>],
         messages := [(SUCCESS, ''Update was successful.'')],
         session_auth := Some (3, ''hmac$hash$n3w'')\<rparr>,
      Render ''main/edit-profile.html''
        (Edit_profile_ctx (EditProfileForm_bound cyd_post (personal_of cyd)) 3))"
  by (simp add: update_profile_def login_required_def update_profile_view_def
      update_profile_valid_def get_object_or_404_def EditProfileForm_save_def save_user_def
      save_row_def ModelBackend_authenticate_def login_def add_message_def clear_messages_def
      truthy_def Let_def cyd_post_def sample_defs)

text \<open>
  Claim C9. A valid profile form with a new password is posted, the account is saved,
  and the authentication with the new username and password then gives no user. The
  handler goes on as if nothing had happened: the session's authentication entry is the
  one from before the request, the only flash message is the success message, the page
  is rendered as after any successful update, and the account stays saved with the new
  password hash.
\<close>

theorem reauthentication_failure_ignored:
  assumes "user req = Some u"
    and "get_object_or_404 (\<lambda>pd. username pd = acc_username u) (personal_details_tbl st) = Inr pd"
    and "req_method req = POST"
    and "EditProfileForm P (clear_messages st) pd (POST_data req) = Some cd"
    and "pc_new_password cd = Some pw"
    and "pw \<noteq> []"
    and "save_user (EditProfileForm_save cd pd (clear_messages st))
           (u\<lparr>acc_username := pc_username cd, acc_email := pc_email cd,
              acc_password := make_password P pw\<rparr>) = Inr st2"
    and "authenticate P st2 (pc_username cd) pw = None"
  shows "\<exists>st'. update_profile P st req i =
            (st', Render ''main/edit-profile.html''
                    (Edit_profile_ctx (EditProfileForm_bound (POST_data req) pd) i))
     \<and> session_auth st' = session_auth st
     \<and> messages st' = [(SUCCESS, ''Update was successful.'')]
     \<and> users st' = users st2
     \<and> find (\<lambda>v. acc_id v = acc_id u) (users st') =
          Some (u\<lparr>acc_username := pc_username cd, acc_email := pc_email cd,
                  acc_password := make_password P pw\<rparr>)"
proof -
  let ?u2 = "u\<lparr>acc_username := pc_username cd, acc_email := pc_email cd,
              acc_password := make_password P pw\<rparr>"
  have e: "update_profile P st req i =
      (add_message SUCCESS ''Update was successful.'' st2,
       Render ''main/edit-profile.html''
         (Edit_profile_ctx (EditProfileForm_bound (POST_data req) pd) i))"
    unfolding update_profile_post [OF assms(1-4)] using assms(5-8)
    by (simp add: update_profile_valid_def Let_def truthy_def)
  have s: "st2 = (EditProfileForm_save cd pd (clear_messages st))
             \<lparr>users := save_row acc_id ?u2 (users (EditProfileForm_save cd pd (clear_messages st)))\<rparr>"
    using assms(7) by (rule save_user_Inr(1))
  have f: "find (\<lambda>v. acc_id v = acc_id u) (users st2) = Some ?u2"
    using find_save_row [of acc_id ?u2] by (simp add: s)
  have a: "session_auth st2 = session_auth st" "messages st2 = []"
    by (simp_all add: s EditProfileForm_save_def clear_messages_def)
  show ?thesis unfolding e using f a by (simp add: add_message_def)
qed

text \<open>On the sample deployment, with the framework's default backend: an account that
  is not active does not authenticate.\<close>

theorem reauthentication_failure_ignored_witness:
  "session_auth sample_state = None
   \<and> (\<exists>st'. update_profile sample_platform sample_state
              (request_of POST (cyd\<lparr>is_active := False\<rparr>) cyd_post) 3
            = (st', Render ''main/edit-profile.html''
                      (Edit_profile_ctx (EditProfileForm_bound cyd_post (personal_of cyd)) 3))
          \<and> session_auth st' = None
          \<and> messages st' = [(SUCCESS, ''Update was successful.'')]
          \<and> find (\<lambda>v. acc_id v = 3) (users st') =
              Some (cyd\<lparr>acc_username := ''cy'', acc_email := ''cy@x.org'',
                        acc_password := ''hash$n3w'', is_active := False\<rparr>))"
proof -
  let ?u = "cyd\<lparr>is_active := False\<rparr>"
  let ?req = "request_of POST ?u cyd_post"
  let ?cd = "cyd_cleaned (Some ''n3w'')"
  have h1: "user ?req = Some ?u" and h3: "req_method ?req = POST"
    and pd: "POST_data ?req = cyd_post"
    by (simp_all add: request_of_def)
  have h4: "EditProfileForm sample_platform (clear_messages sample_state) (personal_of cyd)
              (POST_data ?req) = Some ?cd"
    unfolding pd by (rule sample_profile_form)
  have h5: "pc_new_password ?cd = Some ''n3w''" and h6: "''n3w'' \<noteq> []"
    by (simp_all add: cyd_cleaned_def)
  obtain st2 where h7: "save_user (EditProfileForm_save ?cd (personal_of cyd) (clear_messages sample_state))
           (?u\<lparr>acc_username := pc_username ?cd, acc_email := pc_email ?cd,
              acc_password := make_password sample_platform ''n3w''\<rparr>) = Inr st2"
    and u2: "users st2 = [ann, bob, cyd\<lparr>acc_username := ''cy'', acc_email := ''cy@x.org'',
                        acc_password := ''hash$n3w'', is_active := False\<rparr>]"
    by (simp add: save_user_def save_row_def EditProfileForm_save_def clear_messages_def
        cyd_cleaned_def sample_defs)
  have h8: "authenticate sample_platform st2 (pc_username ?cd) ''n3w'' = None"
    by (simp add: sample_platform_def ModelBackend_authenticate_def u2 cyd_cleaned_def
        ann_def bob_def cyd_def)
  have n: "session_auth sample_state = None" "acc_id ?u = 3"
    "?u\<lparr>acc_username := pc_username ?cd, acc_email := pc_email ?cd,
              acc_password := make_password sample_platform ''n3w''\<rparr>
     = cyd\<lparr>acc_username := ''cy'', acc_email := ''cy@x.org'',
                        acc_password := ''hash$n3w'', is_active := False\<rparr>"
    by (simp_all add: sample_defs cyd_cleaned_def)
  from reauthentication_failure_ignored [OF h1 sample_profile_lookup(2) h3 h4 h5 h6 h7 h8, of 3]
  show ?thesis
    unfolding pd n by blast
qed

text \<open>
  Claim C8. A valid profile form is posted and the handler does not end in an exception.
  Afterwards the caller's account (found by its key) and the caller's Personal Details
  row (found by its key) hold the same username and the same email, those of the cleaned
  data.
\<close>

theorem profile_edit_keeps_account_in_sync:
  assumes "user req = Some u"
    and "get_object_or_404 (\<lambda>pd. username pd = acc_username u) (personal_details_tbl st) = Inr pd"
    and "req_method req = POST"
    and "EditProfileForm P (clear_messages st) pd (POST_data req) = Some cd"
    and "update_profile P st req i = (st', r)"
    and "\<forall>e. r \<noteq> Raise e"
  shows "\<exists>a p. find (\<lambda>v. acc_id v = acc_id u) (users st') = Some a
     \<and> find (\<lambda>x. pd_id x = pd_id pd) (personal_details_tbl st') = Some p
     \<and> acc_username a = username p \<and> acc_email a = email p
     \<and> username p = pc_username cd \<and> email p = pc_email cd"
proof -
  let ?pd' = "pd\<lparr>first_name := pc_first_name cd, last_name := pc_last_name cd,
                username := pc_username cd, email := pc_email cd\<rparr>"
  let ?st1 = "EditProfileForm_save cd pd (clear_messages st)"
  from assms(5) have "update_profile_valid P (clear_messages st) req u pd cd i = (st', r)"
    unfolding update_profile_post [OF assms(1-4)] .
  from update_profile_valid_success [OF this assms(6)]
  obtain ux st2 where sv: "save_user ?st1 ux = Inr st2"
    and ux: "acc_id ux = acc_id u" "acc_username ux = pc_username cd" "acc_email ux = pc_email cd"
    and tb: "users st' = users st2" "personal_details_tbl st' = personal_details_tbl st2"
    by blast
  have s2: "st2 = ?st1\<lparr>users := save_row acc_id ux (users ?st1)\<rparr>"
    using sv by (rule save_user_Inr(1))
  have fa: "find (\<lambda>v. acc_id v = acc_id u) (users st') = Some ux"
    using find_save_row [of acc_id ux "users ?st1"] ux(1) tb(1) by (simp add: s2)
  have "personal_details_tbl st' = save_row pd_id ?pd' (personal_details_tbl st)"
    using tb(2) by (simp add: s2 EditProfileForm_save_def)
  then have fp: "find (\<lambda>x. pd_id x = pd_id pd) (personal_details_tbl st') = Some ?pd'"
    using find_save_row [of pd_id ?pd' "personal_details_tbl st"] by simp
  from fa fp ux show ?thesis by simp
qed

text \<open>On the sample deployment: Cyd changes username, email and password.\<close>

theorem profile_edit_keeps_account_in_sync_witness:
  "\<exists>a p. find (\<lambda>v. acc_id v = 3)
            (users (fst (update_profile sample_platform sample_state
                           (request_of POST cyd cyd_post) 3))) = Some a
     \<and> find (\<lambda>x. pd_id x = 3)
            (personal_details_tbl (fst (update_profile sample_platform sample_state
                           (request_of POST cyd cyd_post) 3))) = Some p
     \<and> acc_username a = username p \<and> acc_email a = email p
     \<and> username p = ''cy'' \<and> email p = ''cy@x.org''"
proof -
  let ?req = "request_of POST cyd cyd_post"
  let ?cd = "cyd_cleaned (Some ''n3w'')"
  let ?out = "update_profile sample_platform sample_state ?req 3"
  have h1: "user ?req = Some cyd" and h3: "req_method ?req = POST"
    and pd: "POST_data ?req = cyd_post"
    by (simp_all add: request_of_def)
  have h4: "EditProfileForm sample_platform (clear_messages sample_state) (personal_of cyd)
              (POST_data ?req) = Some ?cd"
    unfolding pd by (rule sample_profile_form)
  have h5: "?out = (fst ?out, snd ?out)" by simp
  have h6: "\<forall>e. snd ?out \<noteq> Raise e"
    by (simp add: sample_profile_edit)
  have n: "acc_id cyd = 3" "pd_id (personal_of cyd) = 3" "pc_username ?cd = ''cy''"
    "pc_email ?cd = ''cy@x.org''"
    by (simp_all add: sample_defs cyd_cleaned_def)
  from profile_edit_keeps_account_in_sync [OF h1 sample_profile_lookup(1) h3 h4 h5 h6]
  show ?thesis unfolding n .
qed

text \<open>
  Claim C5. A valid profile form is posted by an active user, no other account holds
  the cleaned username (the save would raise otherwise), and the authentication backend
  is the framework's default one over a password check that accepts what the hasher
  produces. With a new password, the account is saved with the hash of the new password,
  the new username and password authenticate as that account, and the session, read the
  way the framework reads it at the next request, gives that account: the session stays
  valid. Without a new password, the account is saved with the password it had and the
  session's authentication entry is not touched.
\<close>

theorem password_change_keeps_session:
  assumes "user req = Some u"
    and "get_object_or_404 (\<lambda>pd. username pd = acc_username u) (personal_details_tbl st) = Inr pd"
    and "req_method req = POST"
    and "EditProfileForm P (clear_messages st) pd (POST_data req) = Some cd"
    and "\<forall>v \<in> set (users st). acc_id v \<noteq> acc_id u \<longrightarrow> acc_username v \<noteq> pc_username cd"
    and "is_active u"
    and "authenticate P = ModelBackend_authenticate check_password"
    and "\<forall>pw. check_password pw (make_password P pw)"
    and "u1 = u\<lparr>acc_username := pc_username cd, acc_email := pc_email cd\<rparr>"
  shows "\<exists>st'. update_profile P st req i =
            (st', Render ''main/edit-profile.html''
                    (Edit_profile_ctx (EditProfileForm_bound (POST_data req) pd) i))
     \<and> messages st' = [(SUCCESS, ''Update was successful.'')]
     \<and> (\<forall>pw. pc_new_password cd = Some pw \<and> pw \<noteq> [] \<longrightarrow>
           find (\<lambda>v. acc_id v = acc_id u) (users st') = Some (u1\<lparr>acc_password := make_password P pw\<rparr>)
           \<and> authenticate P st' (pc_username cd) pw = Some (u1\<lparr>acc_password := make_password P pw\<rparr>)
           \<and> get_user P st' = Some (u1\<lparr>acc_password := make_password P pw\<rparr>))
     \<and> (\<not> truthy (pc_new_password cd) \<longrightarrow>
           find (\<lambda>v. acc_id v = acc_id u) (users st') = Some u1
           \<and> acc_password u1 = acc_password u
           \<and> session_auth st' = session_auth st)"
proof (cases "truthy (pc_new_password cd)")
  case False
  let ?st1 = "EditProfileForm_save cd pd (clear_messages st)"
  have us: "users ?st1 = users st" "messages ?st1 = []" "session_auth ?st1 = session_auth st"
    by (simp_all add: EditProfileForm_save_def clear_messages_def)
  have sv: "save_user ?st1 u1 = Inr (?st1\<lparr>users := save_row acc_id u1 (users st)\<rparr>)"
    using save_user_ok [of ?st1 u1] assms(5,9) by (simp add: us)
  have e: "update_profile P st req i =
      (add_message SUCCESS ''Update was successful.'' (?st1\<lparr>users := save_row acc_id u1 (users st)\<rparr>),
       Render ''main/edit-profile.html''
         (Edit_profile_ctx (EditProfileForm_bound (POST_data req) pd) i))"
    unfolding update_profile_post [OF assms(1-4)] using False sv assms(9)
    by (simp add: update_profile_valid_def Let_def)
  have f: "find (\<lambda>v. acc_id v = acc_id u) (save_row acc_id u1 (users st)) = Some u1"
    using find_save_row [of acc_id u1 "users st"] assms(9) by simp
  show ?thesis
    unfolding e using False f us assms(9) by (auto simp: add_message_def truthy_def)
next
  case True
  then obtain pw where pw: "pc_new_password cd = Some pw" "pw \<noteq> []"
    by (auto simp: truthy_def split: option.splits)
  let ?st1 = "EditProfileForm_save cd pd (clear_messages st)"
  let ?u2 = "u1\<lparr>acc_password := make_password P pw\<rparr>"
  let ?st2 = "?st1\<lparr>users := save_row acc_id ?u2 (users st)\<rparr>"
  have us: "users ?st1 = users st" "messages ?st1 = []" "session_auth ?st1 = session_auth st"
    by (simp_all add: EditProfileForm_save_def clear_messages_def)
  have sv: "save_user ?st1 ?u2 = Inr ?st2"
    using save_user_ok [of ?st1 ?u2] assms(5,9) by (simp add: us)
  have fi: "find (\<lambda>v. acc_id v = acc_id u) (save_row acc_id ?u2 (users st)) = Some ?u2"
    using find_save_row [of acc_id ?u2 "users st"] assms(9) by simp
  have fn: "find (\<lambda>v. acc_username v = pc_username cd) (save_row acc_id ?u2 (users st)) = Some ?u2"
    using find_save_row_unique [of "users st" acc_id ?u2 acc_username] assms(5,9) by simp
  have au: "ModelBackend_authenticate check_password s (pc_username cd) pw = Some ?u2"
    if "users s = save_row acc_id ?u2 (users st)" for s
    using that fn assms(6,8,9) by (simp add: ModelBackend_authenticate_def)
  have e: "update_profile P st req i =
      (add_message SUCCESS ''Update was successful.'' (login P ?st2 ?u2),
       Render ''main/edit-profile.html''
         (Edit_profile_ctx (EditProfileForm_bound (POST_data req) pd) i))"
    unfolding update_profile_post [OF assms(1-4)] using True pw sv assms(7,9) au [of ?st2]
    by (simp add: update_profile_valid_def Let_def)
  let ?st' = "add_message SUCCESS ''Update was successful.'' (login P ?st2 ?u2)"
  have u': "users ?st' = save_row acc_id ?u2 (users st)"
    by (simp add: add_message_def login_def)
  have m': "messages ?st' = [(SUCCESS, ''Update was successful.'')]"
    by (simp add: add_message_def login_def us)
  have g: "get_user P ?st' = Some ?u2"
    using fi assms(6,9) by (simp add: get_user_def add_message_def login_def)
  have a': "authenticate P ?st' (pc_username cd) pw = Some ?u2"
    using au [OF u'] assms(7) by simp
  show ?thesis
    unfolding e using pw True u' m' g a' fi by auto
qed

text \<open>On the sample deployment: Cyd's form with a new password, and the same form
  without one.\<close>

theorem password_change_keeps_session_witness:
  "get_user sample_platform
      (fst (update_profile sample_platform sample_state (request_of POST cyd cyd_post) 3))
     = Some (cyd\<lparr>acc_username := ''cy'', acc_email := ''cy@x.org'', acc_password := ''hash$n3w''\<rparr>)
   \<and> authenticate sample_platform
      (fst (update_profile sample_platform sample_state (request_of POST cyd cyd_post) 3))
      ''cy'' ''n3w''
     = Some (cyd\<lparr>acc_username := ''cy'', acc_email := ''cy@x.org'', acc_password := ''hash$n3w''\<rparr>)
   \<and> find (\<lambda>v. acc_id v = 3)
      (users (fst (update_profile sample_platform sample_state
                     (request_of POST cyd cyd_post_plain) 3)))
     = Some (cyd\<lparr>acc_username := ''cy'', acc_email := ''cy@x.org''\<rparr>)
   \<and> session_auth
      (fst (update_profile sample_platform sample_state (request_of POST cyd cyd_post_plain) 3))
     = session_auth sample_state"
proof -
  let ?chk = "\<lambda>pw h. h = ''hash$'' @ pw"
  have h1: "user (request_of POST cyd q) = Some cyd" and h3: "req_method (request_of POST cyd q) = POST"
    and pd: "POST_data (request_of POST cyd q) = q" for q
    by (simp_all add: request_of_def)
  have h4: "EditProfileForm sample_platform (clear_messages sample_state) (personal_of cyd)
              (POST_data (request_of POST cyd cyd_post)) = Some (cyd_cleaned (Some ''n3w''))"
    and h4': "EditProfileForm sample_platform (clear_messages sample_state) (personal_of cyd)
              (POST_data (request_of POST cyd cyd_post_plain)) = Some (cyd_cleaned None)"
    unfolding pd by (rule sample_profile_form)+
  have h5: "\<forall>v \<in> set (users sample_state).
              acc_id v \<noteq> acc_id cyd \<longrightarrow> acc_username v \<noteq> pc_username (cyd_cleaned pw)" for pw
    by (simp add: sample_defs cyd_cleaned_def)
  have h6: "is_active cyd" by (simp add: cyd_def)
  have h7: "authenticate sample_platform = ModelBackend_authenticate ?chk"
    by (simp add: sample_platform_def)
  have h8: "\<forall>pw. ?chk pw (make_password sample_platform pw)"
    by (simp add: sample_platform_def)
  have n: "acc_id cyd = 3" "make_password sample_platform ''n3w'' = ''hash$n3w''"
    "pc_username (cyd_cleaned pw) = ''cy''" "pc_email (cyd_cleaned pw) = ''cy@x.org''"
    "pc_new_password (cyd_cleaned pw) = pw" "truthy None = False" for pw
    by (simp_all add: sample_defs cyd_cleaned_def truthy_def)
  from password_change_keeps_session [OF h1 sample_profile_lookup(1) h3 h4 h5 h6 h7 h8 refl, of 3]
    password_change_keeps_session [OF h1 sample_profile_lookup(1) h3 h4' h5 h6 h7 h8 refl, of 3]
  show ?thesis
    by (auto simp: n)
qed

end
